theory Spec2Isabelle
  imports Main
begin

section \<open>Data model\<close>

text \<open>
  The configuration object \<^verbatim>\<open>CONFIG\<close> of \<^verbatim>\<open>app.js\<close> (lines 8-26). Three of its
  fields are read from \<^verbatim>\<open>./config\<close>, which is not part of the sources, so they are
  parameters of \<open>CONFIG\<close> below.
\<close>

record config =
  PAGE_URL :: string
  TELEGRAPH_TITLE :: string
  IMAGE_DIR :: string
  BASE_URL :: string
  ALLOWED_EXT :: "string list"
  CONCURRENCY :: nat
  MD_AUTHOR :: string
  TELEGRAPH_SHORT_NAME :: string
  TELEGRAPH_AUTHOR :: string
  AUTHOR_URL :: string
  RETRY_TIMES :: nat
  RETRY_DELAY :: nat
  LOG_DIR :: string
  RESULT_MD :: string
  RESULT_JSON :: string

definition CONFIG :: "string \<Rightarrow> string \<Rightarrow> string \<Rightarrow> config" where
  "CONFIG page_url telegraph_title image_dir =
     \<lparr> PAGE_URL = page_url,
       TELEGRAPH_TITLE = telegraph_title,
       IMAGE_DIR = image_dir,
       BASE_URL = ''https://im.gurl.eu.org'',
       ALLOWED_EXT = [''.jpg'', ''.jpeg'', ''.png'', ''.gif'', ''.webp''],
       CONCURRENCY = 10,
       MD_AUTHOR = ''Kafu Chino'',
       TELEGRAPH_SHORT_NAME = ''BocchiUploader'',
       TELEGRAPH_AUTHOR = ''Kafu Chino'',
       AUTHOR_URL = ''https://github.com/etsuyou/telegraph-img-uploader'',
       RETRY_TIMES = 10,
       RETRY_DELAY = 10000,
       LOG_DIR = ''./output/logs'',
       RESULT_MD = ''./output/'' @ page_url @ ''.md'',
       RESULT_JSON = ''./output/'' @ page_url @ ''.json'' \<rparr>"

text \<open>
  A JavaScript exception, kept with its \<^verbatim>\<open>message\<close>. \<open>Error\<close> stands for the errors
  made with \<^verbatim>\<open>new Error(...)\<close> and for the rejections of \<^verbatim>\<open>axios\<close>; \<open>TypeError\<close> for
  a property read on \<^verbatim>\<open>null\<close> or \<^verbatim>\<open>undefined\<close>.
\<close>

datatype js_error = Error (message: string) | TypeError (message: string)

text \<open>
  The object returned by \<^verbatim>\<open>uploadFile\<close> (lines 102-107 and 111-117). \<open>url\<close> is
  \<open>None\<close> for \<^verbatim>\<open>null\<close>; \<open>error\<close> is \<open>None\<close> when the object has no such key.
\<close>

record outcome =
  filename :: string
  url :: "string option"
  status :: string
  error :: "string option"
  retries :: nat

text \<open>
  A content node of the Telegraph API:
  \<^verbatim>\<open>{tag, attrs?, children?}\<close>, or a string among the children. An absent key is \<open>None\<close>.
  An attribute value is \<open>None\<close> for \<^verbatim>\<open>null\<close>, since \<^verbatim>\<open>img.url\<close> may be.
\<close>

datatype node =
    Str string
  | Node (tag: string) (attrs: "(string \<times> string option) list option")
         (children: "node list option")

text \<open>The HTTP requests the program sends through \<^verbatim>\<open>axios.post\<close>.\<close>

datatype request =
    Upload string string string
    \<comment> \<open>\<^verbatim>\<open>POST BASE_URL/upload\<close>: base URL, and the file \<^verbatim>\<open>path.join(IMAGE_DIR, file)\<close> as the pair\<close>
  | CreateAccount string string
    \<comment> \<open>\<^verbatim>\<open>short_name\<close>, \<^verbatim>\<open>author_name\<close>\<close>
  | CreatePage string string "node list"
    \<comment> \<open>\<^verbatim>\<open>access_token\<close>, \<^verbatim>\<open>title\<close>, \<^verbatim>\<open>content\<close>\<close>
  | EditPage string string string "node list" string string
    \<comment> \<open>path, \<^verbatim>\<open>access_token\<close>, \<^verbatim>\<open>title\<close>, \<^verbatim>\<open>content\<close>, \<^verbatim>\<open>author_name\<close>, \<^verbatim>\<open>author_url\<close>\<close>

text \<open>
  The body of a Telegraph response: \<^verbatim>\<open>{ok: true, result: ...}\<close> with the one field of
  \<^verbatim>\<open>result\<close> that the caller reads, or \<^verbatim>\<open>{ok: false, error}\<close>.
\<close>

datatype tg_reply = TgOk string | TgFail string

text \<open>
  Every \<^verbatim>\<open>await axios.post(...)\<close> puts two events on the trace of the run: the request
  leaves, its promise settles. A request is in flight between the two. A wait of
  \<^verbatim>\<open>setTimeout\<close> is an event too.
\<close>

datatype event = HttpBegin request | HttpEnd request | Timeout nat

text \<open>
  The messages of \<^verbatim>\<open>writeLog\<close>, one constructor for each template string of the
  source, with the values that the template interpolates. The text of the templates is
  not modelled.
\<close>

datatype log_msg =
    Msg_start                            \<comment> \<open>line 246\<close>
  | Msg_init_error string                \<comment> \<open>line 76, \<^verbatim>\<open>error.message\<close>\<close>
  | Msg_uploading nat nat string nat     \<comment> \<open>lines 89-91: \<^verbatim>\<open>index + 1\<close>, \<^verbatim>\<open>total\<close>, \<^verbatim>\<open>file\<close>, \<^verbatim>\<open>retryCount\<close>\<close>
  | Msg_retries_exceeded string nat      \<comment> \<open>line 110: \<^verbatim>\<open>file\<close>, \<^verbatim>\<open>CONFIG.RETRY_TIMES\<close>\<close>
  | Msg_found nat                        \<comment> \<open>line 128: \<^verbatim>\<open>total\<close>\<close>
  | Msg_account_ok                       \<comment> \<open>line 169\<close>
  | Msg_account_failed string            \<comment> \<open>line 174\<close>
  | Msg_page_ok                          \<comment> \<open>line 207\<close>
  | Msg_page_failed string               \<comment> \<open>line 212\<close>
  | Msg_edit_ok                          \<comment> \<open>line 234\<close>
  | Msg_edit_failed string               \<comment> \<open>line 239\<close>
  | Msg_access_token string              \<comment> \<open>line 278\<close>
  | Msg_final_url string                 \<comment> \<open>line 298\<close>
  | Msg_totals nat nat                   \<comment> \<open>line 309: \<^verbatim>\<open>successResults.length\<close>, \<^verbatim>\<open>imageFiles.length\<close>\<close>
  | Msg_json_path string                 \<comment> \<open>line 311\<close>
  | Msg_md_path string                   \<comment> \<open>line 312\<close>
  | Msg_normal_exit                      \<comment> \<open>line 313\<close>
  | Msg_run_error string                 \<comment> \<open>line 315, \<^verbatim>\<open>error.message\<close>\<close>

datatype level = INFO | ERROR

text \<open>
  The arguments of \<^verbatim>\<open>generateMarkdown\<close> (lines 143-154); the rendering of the Markdown
  text is not modelled.
\<close>

record markdown =
  md_items :: "outcome list"
  md_accessToken :: string
  md_url :: string

text \<open>
  What a run can change: the trace of network and timer events, the lines written by
  \<^verbatim>\<open>writeLog\<close>, the progress lines on standard output (\<^verbatim>\<open>i + 1\<close> and \<^verbatim>\<open>total\<close>), and
  the two result files. \<open>result_json\<close> is the parsed content of \<^verbatim>\<open>CONFIG.RESULT_JSON\<close>,
  \<open>None\<close> when the file does not exist; an element \<open>None\<close> of the array is \<^verbatim>\<open>null\<close>
  (what \<^verbatim>\<open>JSON.stringify\<close> writes for \<^verbatim>\<open>undefined\<close>).
\<close>

record world =
  trace :: "event list"
  logged :: "(level \<times> log_msg) list"
  stdout :: "(nat \<times> nat) list"
  result_json :: "outcome option list option"
  result_md :: "markdown option"

text \<open>
  What the run does not control. The servers answer the \<open>n\<close>-th request of the run
  (\<open>n\<close> counts the requests sent before it): \<open>Inl\<close> is a rejected promise of \<^verbatim>\<open>axios\<close>,
  \<open>Inr\<close> is \<^verbatim>\<open>response.data\<close>. For the image host \<^verbatim>\<open>response.data\<close> is an array of
  objects, given by their \<^verbatim>\<open>src\<close> (\<open>None\<close> when an object has no \<^verbatim>\<open>src\<close>).
  \<open>readdir\<close> is the listing of a directory, \<open>None\<close> when it does not exist;
  \<open>extname_lower\<close> is \<^verbatim>\<open>path.extname(file).toLowerCase()\<close>; \<open>resolve\<close> is
  \<^verbatim>\<open>path.resolve\<close>; \<open>currentYear\<close> is \<^verbatim>\<open>new Date().getFullYear()\<close>.
\<close>

record env =
  readdir :: "string \<Rightarrow> string list option"
  extname_lower :: "string \<Rightarrow> string"
  resolve :: "string \<Rightarrow> string"
  currentYear :: nat
  upload_server :: "nat \<Rightarrow> string \<Rightarrow> string \<Rightarrow> js_error + string option list"
  account_server :: "nat \<Rightarrow> string \<Rightarrow> string \<Rightarrow> js_error + tg_reply"
  page_server :: "nat \<Rightarrow> string \<Rightarrow> string \<Rightarrow> node list \<Rightarrow> js_error + tg_reply"
  edit_server :: "nat \<Rightarrow> string \<Rightarrow> string \<Rightarrow> string \<Rightarrow> node list \<Rightarrow> string \<Rightarrow> string
                   \<Rightarrow> js_error + tg_reply"

text \<open>
  The result of a function that may throw or end the process: a value, an exception, or
  \<^verbatim>\<open>process.exit(n)\<close>.
\<close>

datatype 'a result = Return 'a | Throw js_error | Exit nat

section \<open>Logging and the network\<close>

text \<open>
  \<^verbatim>\<open>writeLog\<close> (lines 29-56) appends one line; it catches its own errors, so it
  never throws.
\<close>

definition writeLog :: "level \<Rightarrow> log_msg \<Rightarrow> world \<Rightarrow> world" where
  "writeLog lv m w = w\<lparr>logged := logged w @ [(lv, m)]\<rparr>"

text \<open>The number of requests sent so far.\<close>

fun is_begin :: "event \<Rightarrow> bool" where
  "is_begin (HttpBegin r) = True"
| "is_begin (HttpEnd r) = False"
| "is_begin (Timeout d) = False"

definition sent :: "event list \<Rightarrow> nat" where
  "sent t = length (filter is_begin t)"

text \<open>An awaited request: it leaves and settles before the next statement runs.\<close>

definition await_post :: "request \<Rightarrow> world \<Rightarrow> world" where
  "await_post r w = w\<lparr>trace := trace w @ [HttpBegin r, HttpEnd r]\<rparr>"

text \<open>\<^verbatim>\<open>await new Promise((resolve) => setTimeout(resolve, d))\<close>.\<close>

definition await_timeout :: "nat \<Rightarrow> world \<Rightarrow> world" where
  "await_timeout d w = w\<lparr>trace := trace w @ [Timeout d]\<rparr>"

section \<open>The upload pipeline\<close>

text \<open>
  The \<^verbatim>\<open>try\<close> block of \<^verbatim>\<open>uploadFile\<close> after the request is answered (lines 98-107),
  for the request numbered \<open>n\<close>: the exception it throws, or the \<^verbatim>\<open>url\<close> it builds.
  \<^verbatim>\<open>response.data[0]\<close> of an empty array is \<^verbatim>\<open>undefined\<close>, and reading \<^verbatim>\<open>src\<close> from it
  throws; a missing \<^verbatim>\<open>src\<close> is printed as \<^verbatim>\<open>undefined\<close> by the template string.
\<close>

definition upload_attempt :: "env \<Rightarrow> config \<Rightarrow> nat \<Rightarrow> string \<Rightarrow> js_error + string" where
  "upload_attempt en cfg n file =
     (case upload_server en n (IMAGE_DIR cfg) file of
        Inl e \<Rightarrow> Inl e
      | Inr [] \<Rightarrow> Inl (TypeError ''Cannot read properties of undefined (reading 'src')'')
      | Inr (None # _) \<Rightarrow> Inr (BASE_URL cfg @ ''undefined'')
      | Inr (Some src # _) \<Rightarrow> Inr (BASE_URL cfg @ src))"

text \<open>
  The \<^verbatim>\<open>while\<close> loop of \<^verbatim>\<open>uploadFile\<close> (lines 85-122). The result is \<open>None\<close> when the
  loop condition fails and the function returns \<^verbatim>\<open>undefined\<close>.
\<close>

function uploadFile_loop ::
  "env \<Rightarrow> config \<Rightarrow> string \<Rightarrow> nat \<Rightarrow> nat \<Rightarrow> nat \<Rightarrow> world \<Rightarrow> outcome option \<times> world" where
  "uploadFile_loop en cfg file index total' retryCount w =
     (if retryCount \<le> RETRY_TIMES cfg then
        (let w1 = writeLog INFO (Msg_uploading (index + 1) total' file retryCount) w;
             w2 = await_post (Upload (BASE_URL cfg) (IMAGE_DIR cfg) file) w1
         in case upload_attempt en cfg (sent (trace w1)) file of
              Inr u \<Rightarrow>
                (Some \<lparr> filename = file, url = Some u, status = ''success'',
                        error = None, retries = retryCount \<rparr>, w2)
            | Inl e \<Rightarrow>
                if retryCount = RETRY_TIMES cfg then
                  (Some \<lparr> filename = file, url = None, status = ''error'',
                          error = Some (message e), retries = retryCount \<rparr>,
                   writeLog ERROR (Msg_retries_exceeded file (RETRY_TIMES cfg)) w2)
                else
                  uploadFile_loop en cfg file index total' (retryCount + 1)
                    (await_timeout (RETRY_DELAY cfg) w2))
      else (None, w))"
  by pat_completeness auto
termination
  by (relation "measure (\<lambda>(en, cfg, file, index, total', retryCount, w).
        Suc (RETRY_TIMES cfg) - retryCount)") auto

definition uploadFile ::
  "env \<Rightarrow> config \<Rightarrow> string \<Rightarrow> nat \<Rightarrow> nat \<Rightarrow> world \<Rightarrow> outcome option \<times> world" where
  "uploadFile en cfg file index total' w = uploadFile_loop en cfg file index total' 0 w"

text \<open>
  The \<^verbatim>\<open>for\<close> loop of \<^verbatim>\<open>concurrentUpload\<close> (lines 131-137): each \<^verbatim>\<open>uploadFile\<close> is
  awaited before the next one is called. \<open>files ! i\<close> is read under \<open>i < length files\<close>
  only.
\<close>

function concurrentUpload_loop ::
  "env \<Rightarrow> config \<Rightarrow> string list \<Rightarrow> nat \<Rightarrow> nat \<Rightarrow> outcome option list \<Rightarrow> world
     \<Rightarrow> outcome option list \<times> world" where
  "concurrentUpload_loop en cfg files total' i results w =
     (if i < length files then
        (case uploadFile en cfg (files ! i) i total' w of
           (result, w1) \<Rightarrow>
             concurrentUpload_loop en cfg files total' (i + 1) (results @ [result])
               (w1\<lparr>stdout := stdout w1 @ [(i + 1, total')]\<rparr>))
      else (results, w))"
  by pat_completeness auto
termination
  by (relation "measure (\<lambda>(en, cfg, files, total', i, results, w). length files - i)") auto

definition concurrentUpload ::
  "env \<Rightarrow> config \<Rightarrow> string list \<Rightarrow> world \<Rightarrow> outcome option list \<times> world" where
  "concurrentUpload en cfg files w =
     (let total' = length files;
          w1 = writeLog INFO (Msg_found total') w
      in concurrentUpload_loop en cfg files total' 0 [] w1)"


section \<open>Scanning the image directory\<close>

text \<open>
  \<^verbatim>\<open>getImageFiles\<close> (lines 59-79). Both errors are thrown inside the \<^verbatim>\<open>try\<close> block,
  whose handler logs the message and ends the process with status 1. The messages are
  UTF-8 bytes.
\<close>

definition dir_missing_message :: "string \<Rightarrow> string" where
  "dir_missing_message dir =
     [CHR 0xE5, CHR 0x9B, CHR 0xBE, CHR 0xE7, CHR 0x89, CHR 0x87, CHR 0xE7, CHR 0x9B, CHR 0xAE,
      CHR 0xE5, CHR 0xBD, CHR 0x95, CHR 0x20] @ dir @
     [CHR 0x20, CHR 0xE4, CHR 0xB8, CHR 0x8D, CHR 0xE5, CHR 0xAD, CHR 0x98, CHR 0xE5, CHR 0x9C,
      CHR 0xA8]"

definition no_images_message :: "string \<Rightarrow> string" where
  "no_images_message dir =
     [CHR 0xE5, CHR 0x9C, CHR 0xA8, CHR 0x20] @ dir @
     [CHR 0x20, CHR 0xE4, CHR 0xB8, CHR 0xAD, CHR 0xE6, CHR 0x9C, CHR 0xAA, CHR 0xE6, CHR 0x89,
      CHR 0xBE, CHR 0xE5, CHR 0x88, CHR 0xB0, CHR 0xE6, CHR 0x94, CHR 0xAF, CHR 0xE6, CHR 0x8C,
      CHR 0x81, CHR 0xE7, CHR 0x9A, CHR 0x84, CHR 0xE5, CHR 0x9B, CHR 0xBE, CHR 0xE7, CHR 0x89,
      CHR 0x87, CHR 0xE6, CHR 0x96, CHR 0x87, CHR 0xE4, CHR 0xBB, CHR 0xB6]"

definition getImageFiles :: "env \<Rightarrow> config \<Rightarrow> world \<Rightarrow> string list result \<times> world" where
  "getImageFiles en cfg w =
     (case readdir en (IMAGE_DIR cfg) of
        None \<Rightarrow>
          (Exit 1, writeLog ERROR (Msg_init_error (dir_missing_message (IMAGE_DIR cfg))) w)
      | Some files \<Rightarrow>
          (let imageFiles = filter (\<lambda>file. extname_lower en file \<in> set (ALLOWED_EXT cfg)) files
           in if length imageFiles = 0
              then (Exit 1, writeLog ERROR (Msg_init_error (no_images_message (IMAGE_DIR cfg))) w)
              else (Return imageFiles, w)))"

section \<open>The Telegraph document\<close>

text \<open>Decimal digits of a number, as a template string prints it.\<close>

function nat_to_string :: "nat \<Rightarrow> string" where
  "nat_to_string n =
     (if n < 10 then [''0123456789'' ! n]
      else nat_to_string (n div 10) @ [''0123456789'' ! (n mod 10)])"
  by pat_completeness auto
termination
  by (relation "measure id") auto

text \<open>
  The number that a string of decimal digits denotes, read from the left; it is used to
  say what \<open>nat_to_string\<close> prints.
\<close>

definition decimal_value :: "string \<Rightarrow> nat" where
  "decimal_value s = foldl (\<lambda>a c. 10 * a + (of_char c - 48)) 0 s"

text \<open>The text of the summary paragraph (line 183), in UTF-8 bytes.\<close>

definition summary_text :: "nat \<Rightarrow> string" where
  "summary_text n =
     [CHR 0xE5, CHR 0x85, CHR 0xB1, CHR 0xE4, CHR 0xB8, CHR 0x8A, CHR 0xE4, CHR 0xBC, CHR 0xA0,
      CHR 0x20] @ nat_to_string n @
     [CHR 0x20, CHR 0xE5, CHR 0xBC, CHR 0xA0, CHR 0xE5, CHR 0x9B, CHR 0xBE, CHR 0xE7, CHR 0x89,
      CHR 0x87]"

text \<open>The \<^verbatim>\<open>content\<close> built in \<^verbatim>\<open>createTelegraphPage\<close> (lines 182-191).\<close>

definition createPage_content :: "outcome list \<Rightarrow> node list" where
  "createPage_content images =
     Node ''p'' None (Some [Str (summary_text (length images))]) #
     map (\<lambda>img. Node ''figure'' None (Some
            [Node ''img'' (Some [(''src'', url img)]) None,
             Node ''figcaption'' None (Some [Str (filename img)])])) images"

text \<open>The \<^verbatim>\<open>content\<close> that \<^verbatim>\<open>main\<close> passes to \<^verbatim>\<open>editTelegraphPage\<close> (lines 290-296).\<close>

definition editPage_content :: "outcome list \<Rightarrow> node list" where
  "editPage_content successResults =
     map (\<lambda>img. Node ''figure'' None (Some
            [Node ''img'' (Some [(''src'', url img)]) None,
             Node ''figcaption'' None (Some [Str (filename img)])])) successResults"

text \<open>
  \<^verbatim>\<open>createTelegraphAccount\<close> (lines 157-177). A rejected request and a response that is
  not \<^verbatim>\<open>ok\<close> both end in the \<^verbatim>\<open>catch\<close> block, which logs and throws again.
\<close>

definition createTelegraphAccount :: "env \<Rightarrow> config \<Rightarrow> world \<Rightarrow> string result \<times> world" where
  "createTelegraphAccount en cfg w =
     (let w1 = await_post (CreateAccount (TELEGRAPH_SHORT_NAME cfg) (TELEGRAPH_AUTHOR cfg)) w
      in case account_server en (sent (trace w)) (TELEGRAPH_SHORT_NAME cfg) (TELEGRAPH_AUTHOR cfg) of
           Inr (TgOk access_token) \<Rightarrow> (Return access_token, writeLog INFO Msg_account_ok w1)
         | Inr (TgFail err) \<Rightarrow> (Throw (Error err), writeLog ERROR (Msg_account_failed err) w1)
         | Inl e \<Rightarrow> (Throw e, writeLog ERROR (Msg_account_failed (message e)) w1))"

text \<open>\<^verbatim>\<open>createTelegraphPage\<close> (lines 180-215).\<close>

definition createTelegraphPage ::
  "env \<Rightarrow> config \<Rightarrow> string \<Rightarrow> outcome list \<Rightarrow> world \<Rightarrow> string result \<times> world" where
  "createTelegraphPage en cfg accessToken images w =
     (let content = createPage_content images;
          title = PAGE_URL cfg @ ''-'' @ nat_to_string (currentYear en);
          w1 = await_post (CreatePage accessToken title content) w
      in case page_server en (sent (trace w)) accessToken title content of
           Inr (TgOk page_url) \<Rightarrow> (Return page_url, writeLog INFO Msg_page_ok w1)
         | Inr (TgFail err) \<Rightarrow> (Throw (Error err), writeLog ERROR (Msg_page_failed err) w1)
         | Inl e \<Rightarrow> (Throw e, writeLog ERROR (Msg_page_failed (message e)) w1))"

text \<open>\<^verbatim>\<open>editTelegraphPage\<close> (lines 218-242).\<close>

definition editTelegraphPage ::
  "env \<Rightarrow> config \<Rightarrow> string \<Rightarrow> string \<Rightarrow> string \<Rightarrow> node list \<Rightarrow> world \<Rightarrow> string result \<times> world" where
  "editTelegraphPage en cfg accessToken path newTitle content w =
     (let w1 = await_post (EditPage path accessToken newTitle content
                             (TELEGRAPH_AUTHOR cfg) (AUTHOR_URL cfg)) w
      in case edit_server en (sent (trace w)) path accessToken newTitle content
                (TELEGRAPH_AUTHOR cfg) (AUTHOR_URL cfg) of
           Inr (TgOk page_url) \<Rightarrow> (Return page_url, writeLog INFO Msg_edit_ok w1)
         | Inr (TgFail err) \<Rightarrow> (Throw (Error err), writeLog ERROR (Msg_edit_failed err) w1)
         | Inl e \<Rightarrow> (Throw e, writeLog ERROR (Msg_edit_failed (message e)) w1))"

section \<open>The main flow\<close>

text \<open>
  Sequencing of two steps inside a \<^verbatim>\<open>try\<close> block: an exception or an exit of the
  first step skips the second.
\<close>

definition seq ::
  "'a result \<times> world \<Rightarrow> ('a \<Rightarrow> world \<Rightarrow> 'b result \<times> world) \<Rightarrow> 'b result \<times> world" where
  "seq m k = (case m of
      (Return x, w) \<Rightarrow> k x w
    | (Throw e, w) \<Rightarrow> (Throw e, w)
    | (Exit n, w) \<Rightarrow> (Exit n, w))"

text \<open>
  Lines 255-272 of \<^verbatim>\<open>main\<close>: the variables \<^verbatim>\<open>results\<close> and \<^verbatim>\<open>imageFiles\<close> start as
  \<^verbatim>\<open>null\<close> (\<open>None\<close>); without a result file the images are uploaded and the results
  written, with one the file is read instead. The block yields \<^verbatim>\<open>results\<close> after the
  \<^verbatim>\<open>null\<close> test of line 270, and \<^verbatim>\<open>imageFiles\<close>. \<^verbatim>\<open>JSON.stringify\<close> followed by
  \<^verbatim>\<open>JSON.parse\<close> is the identity on the arrays of the model, and the file operations are
  taken to succeed.
\<close>

definition main_results ::
  "env \<Rightarrow> config \<Rightarrow> world \<Rightarrow> (outcome option list \<times> string list option) result \<times> world" where
  "main_results en cfg w =
     seq (if result_json w = None then
            seq (getImageFiles en cfg w) (\<lambda>imageFiles w1.
              case concurrentUpload en cfg imageFiles w1 of
                (results, w2) \<Rightarrow>
                  (Return (Some results, Some imageFiles), w2\<lparr>result_json := Some results\<rparr>))
          else (Return (result_json w, None), w))
       (\<lambda>(results, imageFiles) w1.
          (Return (case results of None \<Rightarrow> [] | Some rs \<Rightarrow> rs, imageFiles), w1))"

text \<open>
  \<^verbatim>\<open>results.filter((item) => item.status === "success")\<close> (line 274): reading
  \<^verbatim>\<open>status\<close> from an element that is \<^verbatim>\<open>null\<close> throws.
\<close>

fun filter_success :: "outcome option list \<Rightarrow> js_error + outcome list" where
  "filter_success [] = Inr []"
| "filter_success (None # items) =
     Inl (TypeError ''Cannot read properties of null (reading 'status')'')"
| "filter_success (Some item # items) =
     (case filter_success items of
        Inl e \<Rightarrow> Inl e
      | Inr rest \<Rightarrow> Inr (if status item = ''success'' then item # rest else rest))"

text \<open>\<^verbatim>\<open>pageUrl.split("/").pop()\<close> (line 285): what follows the last slash.\<close>

definition last_segment :: "string \<Rightarrow> string" where
  "last_segment s = rev (takeWhile (\<lambda>c. c \<noteq> CHR ''/'') (rev s))"

text \<open>Lines 276-305 of \<^verbatim>\<open>main\<close>: the document is assembled when an upload succeeded.\<close>

definition main_assemble ::
  "env \<Rightarrow> config \<Rightarrow> outcome list \<Rightarrow> world \<Rightarrow> unit result \<times> world" where
  "main_assemble en cfg successResults w =
     (if length successResults > 0 then
        seq (createTelegraphAccount en cfg w) (\<lambda>accessToken w1.
        seq (createTelegraphPage en cfg accessToken successResults
               (writeLog INFO (Msg_access_token accessToken) w1)) (\<lambda>pageUrl w2.
        seq (editTelegraphPage en cfg accessToken (last_segment pageUrl) (TELEGRAPH_TITLE cfg)
               (editPage_content successResults) w2) (\<lambda>updatedPageUrl w3.
          (Return (),
           (writeLog INFO (Msg_final_url updatedPageUrl) w3)
             \<lparr>result_md := Some \<lparr> md_items = successResults, md_accessToken = accessToken,
                                  md_url = updatedPageUrl \<rparr>\<rparr>))))
      else (Return (), w))"

text \<open>
  Lines 307-313 of \<^verbatim>\<open>main\<close>. The template string of line 309 reads
  \<^verbatim>\<open>imageFiles.length\<close> before anything is logged, and throws when \<^verbatim>\<open>imageFiles\<close> is
  \<^verbatim>\<open>null\<close>.
\<close>

definition main_report ::
  "env \<Rightarrow> config \<Rightarrow> outcome list \<Rightarrow> string list option \<Rightarrow> world \<Rightarrow> unit result \<times> world" where
  "main_report en cfg successResults imageFiles w =
     (case imageFiles of
        None \<Rightarrow> (Throw (TypeError ''Cannot read properties of null (reading 'length')''), w)
      | Some files \<Rightarrow>
          (Return (),
           writeLog INFO Msg_normal_exit
             (writeLog INFO (Msg_md_path (resolve en (RESULT_MD cfg)))
                (writeLog INFO (Msg_json_path (resolve en (RESULT_JSON cfg)))
                   (writeLog INFO (Msg_totals (length successResults) (length files)) w)))))"

text \<open>
  \<^verbatim>\<open>main\<close> (lines 245-318): the exit status of the process and the world it leaves.
  The status is 0 when the \<^verbatim>\<open>try\<close> block ends normally; the \<^verbatim>\<open>catch\<close> block logs the
  message and exits with 1. Creating the output directories (lines 249-253) is left out.
\<close>

definition main :: "env \<Rightarrow> config \<Rightarrow> world \<Rightarrow> nat \<times> world" where
  "main en cfg w =
     (case seq (main_results en cfg (writeLog INFO Msg_start w)) (\<lambda>(results, imageFiles) w1.
             case filter_success results of
               Inl e \<Rightarrow> (Throw e, w1)
             | Inr successResults \<Rightarrow>
                 seq (main_assemble en cfg successResults w1) (\<lambda>u w2.
                   main_report en cfg successResults imageFiles w2)) of
        (Return u, w') \<Rightarrow> (0, w')
      | (Throw e, w') \<Rightarrow> (1, writeLog ERROR (Msg_run_error (message e)) w')
      | (Exit n, w') \<Rightarrow> (n, w'))"

section \<open>Reading a trace\<close>

text \<open>The upload requests, and the contents sent to create and to edit the page.\<close>

fun upload_requests :: "event list \<Rightarrow> request list" where
  "upload_requests [] = []"
| "upload_requests (HttpBegin (Upload b d f) # t) = Upload b d f # upload_requests t"
| "upload_requests (ev # t) = upload_requests t"

fun document_requests :: "event list \<Rightarrow> request list" where
  "document_requests [] = []"
| "document_requests (HttpBegin (Upload b d f) # t) = document_requests t"
| "document_requests (HttpBegin r # t) = r # document_requests t"
| "document_requests (ev # t) = document_requests t"

fun created_contents :: "event list \<Rightarrow> node list list" where
  "created_contents [] = []"
| "created_contents (HttpBegin (CreatePage a ti c) # t) = c # created_contents t"
| "created_contents (ev # t) = created_contents t"

fun edited_contents :: "event list \<Rightarrow> node list list" where
  "edited_contents [] = []"
| "edited_contents (HttpBegin (EditPage p a ti c an au) # t) = c # edited_contents t"
| "edited_contents (ev # t) = edited_contents t"

text \<open>
  The number of requests in flight after each event of a trace, starting from \<open>n\<close>, and
  the largest number reached.
\<close>

fun in_flight :: "nat \<Rightarrow> event list \<Rightarrow> nat list" where
  "in_flight n [] = []"
| "in_flight n (HttpBegin r # t) = Suc n # in_flight (Suc n) t"
| "in_flight n (HttpEnd r # t) = (n - 1) # in_flight (n - 1) t"
| "in_flight n (Timeout d # t) = n # in_flight n t"

definition max_in_flight :: "event list \<Rightarrow> nat" where
  "max_in_flight t = fold max (in_flight 0 t) 0"

text \<open>
  A trace where the uploads run one at a time: nothing is in flight at its end, and never
  more than one request was.
\<close>

definition one_at_a_time :: "event list \<Rightarrow> bool" where
  "one_at_a_time t \<longleftrightarrow> last (0 # in_flight 0 t) = 0 \<and> list_all (\<lambda>n. n \<le> 1) (in_flight 0 t)"

section \<open>Sample runs\<close>

definition cfg0 :: config where
  "cfg0 = CONFIG ''album'' ''My album'' ''./images''"

definition w0 :: world where
  "w0 = \<lparr> trace = [], logged = [], stdout = [], result_json = None, result_md = None \<rparr>"

text \<open>A directory with two images, and servers that accept every request.\<close>

definition env_ok :: env where
  "env_ok = \<lparr> readdir = (\<lambda>d. if d = ''./images'' then Some [''a.png'', ''b.jpg'', ''notes.txt'']
                             else None),
              extname_lower = (\<lambda>f. drop (length f - 4) f),
              resolve = (\<lambda>p. ''/home/user/'' @ p),
              currentYear = 2024,
              upload_server = (\<lambda>n d f. Inr [Some (''/file/'' @ f)]),
              account_server = (\<lambda>n s a. Inr (TgOk ''token'')),
              page_server = (\<lambda>n a ti c. Inr (TgOk ''https://telegra.ph/album-2024-01-01'')),
              edit_server = (\<lambda>n p a ti c an au. Inr (TgOk (''https://telegra.ph/'' @ p))) \<rparr>"

text \<open>The image host rejects the first \<open>k\<close> requests of the run and accepts the others.\<close>

definition env_flaky :: "nat \<Rightarrow> env" where
  "env_flaky k = env_ok \<lparr> upload_server :=
     (\<lambda>n d f. if n < k then Inl (Error ''Request failed with status code 502'')
               else Inr [Some (''/file/'' @ f)]) \<rparr>"

text \<open>The image host rejects every upload of \<^verbatim>\<open>a.png\<close>, with a numbered message.\<close>

definition env_reject_a :: env where
  "env_reject_a = env_ok \<lparr> upload_server :=
     (\<lambda>n d f. if f = ''a.png'' then Inl (Error (''timeout '' @ nat_to_string n))
               else Inr [Some (''/file/'' @ f)]) \<rparr>"

text \<open>The image host is down.\<close>

definition env_down :: env where
  "env_down = env_ok \<lparr> upload_server := (\<lambda>n d f. Inl (Error ''connect ECONNREFUSED'')) \<rparr>"

definition outcome_a :: outcome where
  "outcome_a = \<lparr> filename = ''a.png'', url = Some ''https://host/a'', status = ''success'',
                 error = None, retries = 0 \<rparr>"

definition outcome_b :: outcome where
  "outcome_b = \<lparr> filename = ''b.jpg'', url = Some ''https://host/b'', status = ''success'',
                 error = None, retries = 0 \<rparr>"

definition failed_a :: outcome where
  "failed_a = \<lparr> filename = ''a.png'', url = None, status = ''error'',
                error = Some ''connect ECONNREFUSED'', retries = 10 \<rparr>"

text \<open>A world where an earlier run left a result file.\<close>

definition resumed :: "outcome option list \<Rightarrow> world" where
  "resumed stored = w0 \<lparr> result_json := Some stored \<rparr>"

section \<open>The retry loop\<close>

text \<open>The loops are unfolded one step at a time, by the lemmas below.\<close>

declare uploadFile_loop.simps [simp del]
declare concurrentUpload_loop.simps [simp del]
declare nat_to_string.simps [simp del]

lemma trace_writeLog [simp]: "trace (writeLog lv m w) = trace w"
  by (simp add: writeLog_def)

lemma trace_await_post [simp]: "trace (await_post r w) = trace w @ [HttpBegin r, HttpEnd r]"
  by (simp add: await_post_def)

lemma trace_await_timeout [simp]: "trace (await_timeout d w) = trace w @ [Timeout d]"
  by (simp add: await_timeout_def)

lemma sent_append [simp]: "sent (xs @ ys) = sent xs + sent ys"
  by (simp add: sent_def)

lemma sent_simps [simp]:
  "sent [] = 0" "sent (HttpBegin r # t) = Suc (sent t)"
  "sent (HttpEnd r # t) = sent t" "sent (Timeout d # t) = sent t"
  by (simp_all add: sent_def)

lemma upload_requests_append [simp]:
  "upload_requests (xs @ ys) = upload_requests xs @ upload_requests ys"
  by (induction xs rule: upload_requests.induct) auto

lemma document_requests_append [simp]:
  "document_requests (xs @ ys) = document_requests xs @ document_requests ys"
  by (induction xs rule: document_requests.induct) auto

lemma created_contents_append [simp]:
  "created_contents (xs @ ys) = created_contents xs @ created_contents ys"
  by (induction xs rule: created_contents.induct) auto

lemma edited_contents_append [simp]:
  "edited_contents (xs @ ys) = edited_contents xs @ edited_contents ys"
  by (induction xs rule: edited_contents.induct) auto

lemma uploadFile_loop_returns:
  "retryCount \<le> RETRY_TIMES cfg \<Longrightarrow>
   \<exists>oc. fst (uploadFile_loop en cfg fl index total' retryCount w) = Some oc \<and>
        filename oc = fl \<and> (status oc = ''success'' \<or> status oc = ''error'') \<and>
        (status oc = ''success'' \<longleftrightarrow> url oc \<noteq> None) \<and>
        (status oc = ''error'' \<longrightarrow> error oc \<noteq> None \<and> retries oc = RETRY_TIMES cfg) \<and>
        (status oc = ''success'' \<longrightarrow> retries oc \<le> RETRY_TIMES cfg)"
proof (induction en cfg fl index total' retryCount w rule: uploadFile_loop.induct)
  case (1 en cfg fl index total' retryCount w)
  show ?case
  proof (cases "upload_attempt en cfg (sent (trace w)) fl")
    case (Inr u)
    then show ?thesis using "1.prems"
      by (subst uploadFile_loop.simps) simp
  next
    case (Inl e)
    show ?thesis
    proof (cases "retryCount = RETRY_TIMES cfg")
      case True
      with Inl show ?thesis
        by (subst uploadFile_loop.simps) simp
    next
      case False
      with "1.prems" have "retryCount + 1 \<le> RETRY_TIMES cfg" by simp
      moreover have "upload_attempt en cfg
          (sent (trace (writeLog INFO (Msg_uploading (index + 1) total' fl retryCount) w))) fl = Inl e"
        using Inl by simp
      ultimately have "\<exists>oc. fst (uploadFile_loop en cfg fl index total' (retryCount + 1)
              (await_timeout (RETRY_DELAY cfg) (await_post (Upload (BASE_URL cfg) (IMAGE_DIR cfg) fl)
                 (writeLog INFO (Msg_uploading (index + 1) total' fl retryCount) w)))) = Some oc \<and>
          filename oc = fl \<and> (status oc = ''success'' \<or> status oc = ''error'') \<and>
          (status oc = ''success'' \<longleftrightarrow> url oc \<noteq> None) \<and>
          (status oc = ''error'' \<longrightarrow> error oc \<noteq> None \<and> retries oc = RETRY_TIMES cfg) \<and>
          (status oc = ''success'' \<longrightarrow> retries oc \<le> RETRY_TIMES cfg)"
        using "1.IH" [OF "1.prems" refl refl _ False] by blast
      then
      show ?thesis using Inl False "1.prems"
        by (subst uploadFile_loop.simps) simp
    qed
  qed
qed


lemma uploadFile_loop_step:
  assumes "retryCount < RETRY_TIMES cfg"
    and "upload_attempt en cfg (sent (trace w)) fl = Inl e"
  shows "uploadFile_loop en cfg fl index total' retryCount w =
         uploadFile_loop en cfg fl index total' (Suc retryCount)
           (await_timeout (RETRY_DELAY cfg)
              (await_post (Upload (BASE_URL cfg) (IMAGE_DIR cfg) fl)
                 (writeLog INFO (Msg_uploading (index + 1) total' fl retryCount) w)))"
  using assms by (subst uploadFile_loop.simps) simp

lemma uploadFile_loop_success:
  assumes "retryCount \<le> RETRY_TIMES cfg"
    and "upload_attempt en cfg (sent (trace w)) fl = Inr u"
  shows "uploadFile_loop en cfg fl index total' retryCount w =
         (Some \<lparr> filename = fl, url = Some u, status = ''success'', error = None,
                 retries = retryCount \<rparr>,
          await_post (Upload (BASE_URL cfg) (IMAGE_DIR cfg) fl)
            (writeLog INFO (Msg_uploading (index + 1) total' fl retryCount) w))"
  using assms by (subst uploadFile_loop.simps) simp

lemma uploadFile_loop_exhausted:
  assumes "retryCount = RETRY_TIMES cfg"
    and "upload_attempt en cfg (sent (trace w)) fl = Inl e"
  shows "uploadFile_loop en cfg fl index total' retryCount w =
         (Some \<lparr> filename = fl, url = None, status = ''error'', error = Some (message e),
                 retries = retryCount \<rparr>,
          writeLog ERROR (Msg_retries_exceeded fl (RETRY_TIMES cfg))
            (await_post (Upload (BASE_URL cfg) (IMAGE_DIR cfg) fl)
               (writeLog INFO (Msg_uploading (index + 1) total' fl retryCount) w)))"
  using assms by (subst uploadFile_loop.simps) simp

lemma uploadFile_loop_fails_then_succeeds:
  "retryCount + m \<le> RETRY_TIMES cfg \<Longrightarrow>
   \<forall>k<m. isl (upload_attempt en cfg (sent (trace w) + k) fl) \<Longrightarrow>
   upload_attempt en cfg (sent (trace w) + m) fl = Inr u \<Longrightarrow>
   fst (uploadFile_loop en cfg fl index total' retryCount w) =
     Some \<lparr> filename = fl, url = Some u, status = ''success'', error = None,
            retries = retryCount + m \<rparr>"
proof (induction m arbitrary: retryCount w)
  case 0
  then show ?case by (simp add: uploadFile_loop_success)
next
  case (Suc m)
  from Suc.prems(2) have "isl (upload_attempt en cfg (sent (trace w)) fl)"
    by (metis add.right_neutral zero_less_Suc)
  then obtain e where e: "upload_attempt en cfg (sent (trace w)) fl = Inl e"
    by (cases "upload_attempt en cfg (sent (trace w)) fl") auto
  let ?w = "await_timeout (RETRY_DELAY cfg)
              (await_post (Upload (BASE_URL cfg) (IMAGE_DIR cfg) fl)
                 (writeLog INFO (Msg_uploading (index + 1) total' fl retryCount) w))"
  have s: "sent (trace ?w) = Suc (sent (trace w))" by simp
  have "fst (uploadFile_loop en cfg fl index total' (Suc retryCount) ?w) =
     Some \<lparr> filename = fl, url = Some u, status = ''success'', error = None,
            retries = Suc retryCount + m \<rparr>"
  proof (rule Suc.IH)
    show "Suc retryCount + m \<le> RETRY_TIMES cfg" using Suc.prems(1) by simp
    show "\<forall>k<m. isl (upload_attempt en cfg (sent (trace ?w) + k) fl)"
      using Suc.prems(2) unfolding s by (metis Suc_less_eq add_Suc_shift)
    show "upload_attempt en cfg (sent (trace ?w) + m) fl = Inr u"
      using Suc.prems(3) unfolding s by simp
  qed
  moreover have "retryCount < RETRY_TIMES cfg" using Suc.prems(1) by simp
  ultimately show ?case using e by (simp add: uploadFile_loop_step)
qed

lemma uploadFile_loop_always_fails:
  "retryCount + m = RETRY_TIMES cfg \<Longrightarrow>
   \<forall>k\<le>m. upload_attempt en cfg (sent (trace w) + k) fl = Inl (e k) \<Longrightarrow>
   fst (uploadFile_loop en cfg fl index total' retryCount w) =
     Some \<lparr> filename = fl, url = None, status = ''error'', error = Some (message (e m)),
            retries = RETRY_TIMES cfg \<rparr>"
proof (induction m arbitrary: retryCount w e)
  case 0
  then show ?case by (simp add: uploadFile_loop_exhausted)
next
  case (Suc m)
  from Suc.prems(2) have e: "upload_attempt en cfg (sent (trace w)) fl = Inl (e 0)"
    by (metis add.right_neutral le0)
  let ?w = "await_timeout (RETRY_DELAY cfg)
              (await_post (Upload (BASE_URL cfg) (IMAGE_DIR cfg) fl)
                 (writeLog INFO (Msg_uploading (index + 1) total' fl retryCount) w))"
  have s: "sent (trace ?w) = Suc (sent (trace w))" by simp
  have "fst (uploadFile_loop en cfg fl index total' (Suc retryCount) ?w) =
     Some \<lparr> filename = fl, url = None, status = ''error'',
            error = Some (message ((\<lambda>k. e (Suc k)) m)), retries = RETRY_TIMES cfg \<rparr>"
  proof (rule Suc.IH)
    show "Suc retryCount + m = RETRY_TIMES cfg" using Suc.prems(1) by simp
    show "\<forall>k\<le>m. upload_attempt en cfg (sent (trace ?w) + k) fl = Inl (e (Suc k))"
      using Suc.prems(2) unfolding s by (metis Suc_le_mono add_Suc_shift)
  qed
  moreover have "retryCount < RETRY_TIMES cfg" using Suc.prems(1) by simp
  ultimately show ?case using e by (simp add: uploadFile_loop_step)
qed

lemma concurrentUpload_loop_results:
  "\<exists>rs. fst (concurrentUpload_loop en cfg files total' i results w) = results @ rs \<and>
        length rs = length files - i \<and>
        (\<forall>j<length rs. \<exists>oc. rs ! j = Some oc \<and> filename oc = files ! (i + j))"
proof (induction en cfg files total' i results w rule: concurrentUpload_loop.induct)
  case (1 en cfg files total' i results w)
  show ?case
  proof (cases "i < length files")
    case False
    then show ?thesis by (subst concurrentUpload_loop.simps) simp
  next
    case True
    obtain r w1 where up: "uploadFile en cfg (files ! i) i total' w = (r, w1)"
      by (cases "uploadFile en cfg (files ! i) i total' w")
    from uploadFile_loop_returns [of 0 cfg en "files ! i" i total' w] up
    obtain oc where oc: "r = Some oc" "filename oc = files ! i"
      by (auto simp: uploadFile_def)
    from "1.IH" [OF True up [symmetric]]
    obtain rs where rs:
      "fst (concurrentUpload_loop en cfg files total' (i + 1) (results @ [r])
             (w1\<lparr>stdout := stdout w1 @ [(i + 1, total')]\<rparr>)) = (results @ [r]) @ rs"
      "length rs = length files - (i + 1)"
      "\<forall>j<length rs. \<exists>oc. rs ! j = Some oc \<and> filename oc = files ! (i + 1 + j)"
      by blast
    have "fst (concurrentUpload_loop en cfg files total' i results w) = results @ (r # rs)"
      using True up rs(1) by (subst concurrentUpload_loop.simps) simp
    moreover have "length (r # rs) = length files - i" using True rs(2) by simp
    moreover have "\<forall>j<length (r # rs). \<exists>oc. (r # rs) ! j = Some oc \<and> filename oc = files ! (i + j)"
    proof (intro allI impI)
      fix j assume "j < length (r # rs)"
      then show "\<exists>oc. (r # rs) ! j = Some oc \<and> filename oc = files ! (i + j)"
        using oc rs(3) by (cases j) auto
    qed
    ultimately show ?thesis by blast
  qed
qed

text \<open>One step of the loop of \<^verbatim>\<open>concurrentUpload\<close>, and the steps up to a later position.\<close>

lemma concurrentUpload_loop_unfold:
  "i < length files \<Longrightarrow>
   concurrentUpload_loop en cfg files total' i results w =
   concurrentUpload_loop en cfg files total' (Suc i)
     (results @ [fst (uploadFile en cfg (files ! i) i total' w)])
     ((snd (uploadFile en cfg (files ! i) i total' w))
        \<lparr>stdout := stdout (snd (uploadFile en cfg (files ! i) i total' w)) @ [(i + 1, total')]\<rparr>)"
  by (subst concurrentUpload_loop.simps) (simp add: case_prod_unfold)

lemma concurrentUpload_loop_reaches:
  "i \<le> j \<Longrightarrow> j \<le> length files \<Longrightarrow>
   \<exists>rs wj. length rs = j - i \<and>
     concurrentUpload_loop en cfg files total' i results w =
     concurrentUpload_loop en cfg files total' j (results @ rs) wj"
proof (induction j rule: dec_induct)
  case base
  show ?case by (rule exI [of _ "[]"]) auto
next
  case (step n)
  then obtain rs wn where rs: "length rs = n - i"
    "concurrentUpload_loop en cfg files total' i results w =
     concurrentUpload_loop en cfg files total' n (results @ rs) wn"
    by auto
  let ?r = "fst (uploadFile en cfg (files ! n) n total' wn)"
  let ?w = "(snd (uploadFile en cfg (files ! n) n total' wn))
        \<lparr>stdout := stdout (snd (uploadFile en cfg (files ! n) n total' wn)) @ [(n + 1, total')]\<rparr>"
  have "n < length files" using step.prems by simp
  then have "concurrentUpload_loop en cfg files total' n (results @ rs) wn =
     concurrentUpload_loop en cfg files total' (Suc n) (results @ (rs @ [?r])) ?w"
    by (simp add: concurrentUpload_loop_unfold)
  moreover have "length (rs @ [?r]) = Suc n - i" using rs(1) step.hyps by simp
  ultimately show ?case using rs(2) by metis
qed


text \<open>Facts about the sample runs.\<close>

lemma cfg0_simps [simp]:
  "RETRY_TIMES cfg0 = 10" "BASE_URL cfg0 = ''https://im.gurl.eu.org''"
  "IMAGE_DIR cfg0 = ''./images''" "RETRY_DELAY cfg0 = 10000" "CONCURRENCY cfg0 = 10"
  by (simp_all add: cfg0_def CONFIG_def)

lemma trace_w0 [simp]: "trace w0 = []"
  by (simp add: w0_def)

text \<open>A run of two uploads that succeed at once.\<close>

lemma sample_upload:
  "concurrentUpload env_ok cfg0 [''a.png'', ''b.jpg''] w0 =
     ([Some \<lparr> filename = ''a.png'', url = Some ''https://im.gurl.eu.org/file/a.png'',
               status = ''success'', error = None, retries = 0 \<rparr>,
       Some \<lparr> filename = ''b.jpg'', url = Some ''https://im.gurl.eu.org/file/b.jpg'',
               status = ''success'', error = None, retries = 0 \<rparr>],
      \<lparr> trace = [HttpBegin (Upload ''https://im.gurl.eu.org'' ''./images'' ''a.png''),
                 HttpEnd (Upload ''https://im.gurl.eu.org'' ''./images'' ''a.png''),
                 HttpBegin (Upload ''https://im.gurl.eu.org'' ''./images'' ''b.jpg''),
                 HttpEnd (Upload ''https://im.gurl.eu.org'' ''./images'' ''b.jpg'')],
         logged = [(INFO, Msg_found 2), (INFO, Msg_uploading 1 2 ''a.png'' 0),
                   (INFO, Msg_uploading 2 2 ''b.jpg'' 0)],
         stdout = [(1, 2), (2, 2)], result_json = None, result_md = None \<rparr>)"
  by (simp add: concurrentUpload_def concurrentUpload_loop.simps uploadFile_def
        uploadFile_loop_success upload_attempt_def env_ok_def w0_def writeLog_def await_post_def)

section \<open>One outcome for each task\<close>

text \<open>
  C1. For every list of files, \<^verbatim>\<open>concurrentUpload\<close> returns a list of the same length,
  and the entry at each position is an outcome (never \<^verbatim>\<open>undefined\<close>) whose \<open>filename\<close>
  is the file at that position: one outcome for each task, in the order of the tasks.
\<close>

theorem concurrentUpload_one_outcome_per_task:
  "length (fst (concurrentUpload en cfg files w)) = length files \<and>
   (\<forall>i<length files. \<exists>oc. fst (concurrentUpload en cfg files w) ! i = Some oc \<and>
                                  filename oc = files ! i)"
proof -
  obtain rs where rs:
    "fst (concurrentUpload en cfg files w) = [] @ rs"
    "length rs = length files - 0"
    "\<forall>j<length rs. \<exists>oc. rs ! j = Some oc \<and> filename oc = files ! (0 + j)"
    unfolding concurrentUpload_def Let_def
    using concurrentUpload_loop_results by blast
  then show ?thesis by simp
qed

text \<open>
  The theorem at two files, the first of which the image host always rejects.
\<close>

theorem concurrentUpload_one_outcome_per_task_witness:
  "(0::nat) < length [''a.png'', ''b.jpg''] \<and> (1::nat) < length [''a.png'', ''b.jpg''] \<and>
   length (fst (concurrentUpload env_reject_a cfg0 [''a.png'', ''b.jpg''] w0)) = 2 \<and>
   map_option filename (fst (concurrentUpload env_reject_a cfg0 [''a.png'', ''b.jpg''] w0) ! 0)
     = Some ''a.png'' \<and>
   map_option filename (fst (concurrentUpload env_reject_a cfg0 [''a.png'', ''b.jpg''] w0) ! 1)
     = Some ''b.jpg''"
  using concurrentUpload_one_outcome_per_task [of env_reject_a cfg0 "[''a.png'', ''b.jpg'']" w0]
  by (auto simp: less_Suc_eq numeral_2_eq_2)

section \<open>Retries\<close>

text \<open>
  C4. When the first \<open>RETRY_TIMES\<close> attempts of \<^verbatim>\<open>uploadFile\<close> for a file fail (the
  request is rejected, or the response has no first element) and the next attempt
  succeeds, the outcome has status \<^verbatim>\<open>success\<close> and \<open>retries = RETRY_TIMES\<close>.
  The attempts of one call of \<^verbatim>\<open>uploadFile\<close> are the requests numbered from
  \<open>sent (trace w)\<close> on.
\<close>

theorem uploadFile_succeeds_on_last_retry:
  assumes "\<forall>k<RETRY_TIMES cfg. isl (upload_attempt en cfg (sent (trace w) + k) fl)"
    and "upload_attempt en cfg (sent (trace w) + RETRY_TIMES cfg) fl = Inr u"
  shows "fst (uploadFile en cfg fl index total' w) =
           Some \<lparr> filename = fl, url = Some u, status = ''success'', error = None,
                  retries = RETRY_TIMES cfg \<rparr>"
  using uploadFile_loop_fails_then_succeeds [of 0 "RETRY_TIMES cfg" cfg en w fl u index total'] assms
  by (simp add: uploadFile_def)

text \<open>
  The theorem for the configured ten retries, with an image host that rejects the first
  ten requests.
\<close>

theorem uploadFile_succeeds_on_last_retry_witness:
  "isl (upload_attempt (env_flaky 10) cfg0 (sent (trace w0) + 0) ''a.png'') \<and>
   isl (upload_attempt (env_flaky 10) cfg0 (sent (trace w0) + 9) ''a.png'') \<and>
   upload_attempt (env_flaky 10) cfg0 (sent (trace w0) + RETRY_TIMES cfg0) ''a.png''
     = Inr ''https://im.gurl.eu.org/file/a.png'' \<and>
   fst (uploadFile (env_flaky 10) cfg0 ''a.png'' 0 1 w0) =
     Some \<lparr> filename = ''a.png'', url = Some ''https://im.gurl.eu.org/file/a.png'',
            status = ''success'', error = None, retries = 10 \<rparr>"
proof -
  have h1: "\<forall>k<RETRY_TIMES cfg0. isl (upload_attempt (env_flaky 10) cfg0 (sent (trace w0) + k) ''a.png'')"
    by (simp add: upload_attempt_def env_flaky_def env_ok_def)
  have h2: "upload_attempt (env_flaky 10) cfg0 (sent (trace w0) + RETRY_TIMES cfg0) ''a.png''
     = Inr ''https://im.gurl.eu.org/file/a.png''"
    by (simp add: upload_attempt_def env_flaky_def env_ok_def)
  show ?thesis
    using h1 h2 uploadFile_succeeds_on_last_retry [OF h1 h2, of 0 1] by simp
qed

text \<open>
  C5. When all \<open>RETRY_TIMES + 1\<close> attempts for the file at position \<open>i\<close> fail,
  \<^verbatim>\<open>uploadFile\<close> returns an outcome with status \<^verbatim>\<open>error\<close>, \<open>retries = RETRY_TIMES\<close> and
  the message of the last error. The failure is a value, not an exception: the loop of
  \<^verbatim>\<open>concurrentUpload\<close> appends it to the results collected so far and goes on with
  position \<open>i + 1\<close>. For every later position \<open>j\<close> the run reaches a world in which it
  calls \<^verbatim>\<open>uploadFile\<close> on the file at \<open>j\<close> and appends what that call returns, so no
  later task is skipped; the final list has one outcome for each of them.
\<close>

theorem exhausted_upload_is_absorbed:
  assumes "i < length files"
    and "\<forall>k\<le>RETRY_TIMES cfg. upload_attempt en cfg (sent (trace w) + k) (files ! i) = Inl (e k)"
  shows "fst (uploadFile en cfg (files ! i) i total' w) =
           Some \<lparr> filename = files ! i, url = None, status = ''error'',
                  error = Some (message (e (RETRY_TIMES cfg))), retries = RETRY_TIMES cfg \<rparr> \<and>
         concurrentUpload_loop en cfg files total' i results w =
           concurrentUpload_loop en cfg files total' (Suc i)
             (results @ [Some \<lparr> filename = files ! i, url = None, status = ''error'',
                                error = Some (message (e (RETRY_TIMES cfg))),
                                retries = RETRY_TIMES cfg \<rparr>])
             ((snd (uploadFile en cfg (files ! i) i total' w))
                \<lparr>stdout := stdout (snd (uploadFile en cfg (files ! i) i total' w)) @
                             [(i + 1, total')]\<rparr>) \<and>
         (\<forall>j. i < j \<and> j < length files \<longrightarrow>
            (\<exists>rs wj. length rs = j - Suc i \<and>
               concurrentUpload_loop en cfg files total' i results w =
               concurrentUpload_loop en cfg files total' (Suc j)
                 (results @
                  Some \<lparr> filename = files ! i, url = None, status = ''error'',
                         error = Some (message (e (RETRY_TIMES cfg))),
                         retries = RETRY_TIMES cfg \<rparr> #
                  rs @ [fst (uploadFile en cfg (files ! j) j total' wj)])
                 ((snd (uploadFile en cfg (files ! j) j total' wj))
                    \<lparr>stdout := stdout (snd (uploadFile en cfg (files ! j) j total' wj)) @
                                 [(j + 1, total')]\<rparr>))) \<and>
         (\<exists>rs. fst (concurrentUpload_loop en cfg files total' i results w) =
                 results @
                 Some \<lparr> filename = files ! i, url = None, status = ''error'',
                        error = Some (message (e (RETRY_TIMES cfg))),
                        retries = RETRY_TIMES cfg \<rparr> # rs \<and>
               length rs = length files - Suc i \<and>
               (\<forall>j<length rs. \<exists>oc. rs ! j = Some oc \<and> filename oc = files ! (Suc i + j)))"
proof -
  let ?err = "\<lparr> filename = files ! i, url = None, status = ''error'',
                error = Some (message (e (RETRY_TIMES cfg))), retries = RETRY_TIMES cfg \<rparr>"
  let ?w1 = "(snd (uploadFile en cfg (files ! i) i total' w))
                \<lparr>stdout := stdout (snd (uploadFile en cfg (files ! i) i total' w)) @
                             [(i + 1, total')]\<rparr>"
  have up: "fst (uploadFile en cfg (files ! i) i total' w) = Some ?err"
    using uploadFile_loop_always_fails [of 0 "RETRY_TIMES cfg" cfg en w "files ! i" e i total']
      assms(2)
    by (simp add: uploadFile_def)
  have next_task: "concurrentUpload_loop en cfg files total' i results w =
      concurrentUpload_loop en cfg files total' (Suc i) (results @ [Some ?err]) ?w1"
    using concurrentUpload_loop_unfold [OF assms(1), of en cfg total' results w] up by simp
  have later: "\<exists>rs wj. length rs = j - Suc i \<and>
       concurrentUpload_loop en cfg files total' i results w =
       concurrentUpload_loop en cfg files total' (Suc j)
         (results @ Some ?err # rs @ [fst (uploadFile en cfg (files ! j) j total' wj)])
         ((snd (uploadFile en cfg (files ! j) j total' wj))
            \<lparr>stdout := stdout (snd (uploadFile en cfg (files ! j) j total' wj)) @
                         [(j + 1, total')]\<rparr>)"
    if j: "i < j" "j < length files" for j
  proof -
    from j have "Suc i \<le> j" "j \<le> length files" by simp_all
    from concurrentUpload_loop_reaches [OF this, of en cfg total' "results @ [Some ?err]" ?w1]
    obtain rs wj where rs: "length rs = j - Suc i"
      "concurrentUpload_loop en cfg files total' (Suc i) (results @ [Some ?err]) ?w1 =
       concurrentUpload_loop en cfg files total' j ((results @ [Some ?err]) @ rs) wj"
      by blast
    have "concurrentUpload_loop en cfg files total' j ((results @ [Some ?err]) @ rs) wj =
       concurrentUpload_loop en cfg files total' (Suc j)
         (results @ Some ?err # rs @ [fst (uploadFile en cfg (files ! j) j total' wj)])
         ((snd (uploadFile en cfg (files ! j) j total' wj))
            \<lparr>stdout := stdout (snd (uploadFile en cfg (files ! j) j total' wj)) @
                         [(j + 1, total')]\<rparr>)"
      using concurrentUpload_loop_unfold [OF j(2), of en cfg total' "(results @ [Some ?err]) @ rs" wj]
      by simp
    with next_task rs show ?thesis by metis
  qed
  obtain rs where rs:
    "fst (concurrentUpload_loop en cfg files total' (Suc i) (results @ [Some ?err]) ?w1) =
       (results @ [Some ?err]) @ rs"
    "length rs = length files - Suc i"
    "\<forall>j<length rs. \<exists>oc. rs ! j = Some oc \<and> filename oc = files ! (Suc i + j)"
    using concurrentUpload_loop_results by blast
  have "fst (concurrentUpload_loop en cfg files total' i results w) = results @ Some ?err # rs"
    using next_task rs(1) by simp
  with rs(2,3) have all: "\<exists>rs. fst (concurrentUpload_loop en cfg files total' i results w) =
                 results @ Some ?err # rs \<and> length rs = length files - Suc i \<and>
               (\<forall>j<length rs. \<exists>oc. rs ! j = Some oc \<and> filename oc = files ! (Suc i + j))"
    by blast
  from up next_task later all show ?thesis by blast
qed

text \<open>
  The theorem for two files, where every upload of the first is rejected with a message
  that carries the number of the request: the outcome holds the message of request 10,
  the second file is uploaded after it (its request is the last on the trace) and its
  outcome has status \<^verbatim>\<open>success\<close>.
\<close>

theorem exhausted_upload_is_absorbed_witness:
  "(0::nat) < length [''a.png'', ''b.jpg''] \<and>
   upload_attempt env_reject_a cfg0 (sent (trace w0) + 0) ([''a.png'', ''b.jpg''] ! 0) =
     Inl (Error ''timeout 0'') \<and>
   upload_attempt env_reject_a cfg0 (sent (trace w0) + RETRY_TIMES cfg0) ([''a.png'', ''b.jpg''] ! 0) =
     Inl (Error ''timeout 10'') \<and>
   fst (uploadFile env_reject_a cfg0 ''a.png'' 0 2 w0) =
     Some \<lparr> filename = ''a.png'', url = None, status = ''error'',
            error = Some ''timeout 10'', retries = 10 \<rparr> \<and>
   fst (concurrentUpload_loop env_reject_a cfg0 [''a.png'', ''b.jpg''] 2 0 [] w0) =
     [Some \<lparr> filename = ''a.png'', url = None, status = ''error'',
             error = Some ''timeout 10'', retries = 10 \<rparr>,
      Some \<lparr> filename = ''b.jpg'', url = Some ''https://im.gurl.eu.org/file/b.jpg'',
             status = ''success'', error = None, retries = 0 \<rparr>] \<and>
   last (upload_requests
           (trace (snd (concurrentUpload_loop env_reject_a cfg0 [''a.png'', ''b.jpg''] 2 0 [] w0)))) =
     Upload ''https://im.gurl.eu.org'' ''./images'' ''b.jpg''"
proof -
  let ?files = "[''a.png'', ''b.jpg'']"
  let ?err = "\<lparr> filename = ''a.png'', url = None, status = ''error'',
                error = Some ''timeout 10'', retries = 10 \<rparr>"
  have h1: "(0::nat) < length ?files" by simp
  have h2: "\<forall>k\<le>RETRY_TIMES cfg0.
      upload_attempt env_reject_a cfg0 (sent (trace w0) + k) (?files ! 0) =
        Inl (Error (''timeout '' @ nat_to_string k))"
    by (simp add: upload_attempt_def env_reject_a_def env_ok_def)
  have n: "nat_to_string 10 = ''10''" "nat_to_string 0 = ''0''" by code_simp+
  have h3: "upload_attempt env_reject_a cfg0 (sent (trace w0) + 0) (?files ! 0) =
     Inl (Error ''timeout 0'')"
    using h2 n by fastforce
  have h4: "upload_attempt env_reject_a cfg0 (sent (trace w0) + RETRY_TIMES cfg0) (?files ! 0) =
     Inl (Error ''timeout 10'')"
    using h2 n by fastforce
  note t = exhausted_upload_is_absorbed [OF h1 h2, of 2 "[]"]
  have a: "fst (uploadFile env_reject_a cfg0 ''a.png'' 0 2 w0) = Some ?err"
    using t by (simp add: n)
  have b: "uploadFile env_reject_a cfg0 ''b.jpg'' idx 2 wj =
      (Some \<lparr> filename = ''b.jpg'', url = Some ''https://im.gurl.eu.org/file/b.jpg'',
               status = ''success'', error = None, retries = 0 \<rparr>,
       await_post (Upload ''https://im.gurl.eu.org'' ''./images'' ''b.jpg'')
         (writeLog INFO (Msg_uploading (idx + 1) 2 ''b.jpg'' 0) wj))" for wj idx
  proof -
    have "upload_attempt env_reject_a cfg0 (sent (trace wj)) ''b.jpg'' =
            Inr ''https://im.gurl.eu.org/file/b.jpg''"
      by (simp add: upload_attempt_def env_reject_a_def env_ok_def)
    then show ?thesis by (simp add: uploadFile_def uploadFile_loop_success)
  qed
  have "(0::nat) < 1 \<and> (1::nat) < length ?files" by simp
  with t obtain rs wj where rs: "length rs = 1 - Suc 0"
    "concurrentUpload_loop env_reject_a cfg0 ?files 2 0 [] w0 =
     concurrentUpload_loop env_reject_a cfg0 ?files 2 (Suc 1)
       ([] @ Some \<lparr> filename = ?files ! 0, url = None, status = ''error'',
                     error = Some (message (Error (''timeout '' @ nat_to_string (RETRY_TIMES cfg0)))),
                     retries = RETRY_TIMES cfg0 \<rparr> #
        rs @ [fst (uploadFile env_reject_a cfg0 (?files ! 1) 1 2 wj)])
       ((snd (uploadFile env_reject_a cfg0 (?files ! 1) 1 2 wj))
          \<lparr>stdout := stdout (snd (uploadFile env_reject_a cfg0 (?files ! 1) 1 2 wj)) @
                       [(1 + 1, 2)]\<rparr>)"
    by blast
  from rs(1) have "rs = []" by simp
  with rs(2) have run:
    "fst (concurrentUpload_loop env_reject_a cfg0 ?files 2 0 [] w0) =
       [Some ?err,
        Some \<lparr> filename = ''b.jpg'', url = Some ''https://im.gurl.eu.org/file/b.jpg'',
                status = ''success'', error = None, retries = 0 \<rparr>]"
    "trace (snd (concurrentUpload_loop env_reject_a cfg0 ?files 2 0 [] w0)) =
       trace wj @ [HttpBegin (Upload ''https://im.gurl.eu.org'' ''./images'' ''b.jpg''),
                   HttpEnd (Upload ''https://im.gurl.eu.org'' ''./images'' ''b.jpg'')]"
    by (subst (asm) (2) concurrentUpload_loop.simps, simp add: n b)+
  show ?thesis
    using h1 h3 h4 a by (simp add: run)
qed

section \<open>The shape of an outcome\<close>

text \<open>
  C10. Every call of \<^verbatim>\<open>uploadFile\<close> returns an outcome, and the outcome satisfies: its
  status is \<^verbatim>\<open>success\<close> or \<^verbatim>\<open>error\<close>; the status is \<^verbatim>\<open>success\<close> exactly when \<open>url\<close> is
  not \<^verbatim>\<open>null\<close>; with status \<^verbatim>\<open>error\<close> the \<open>error\<close> message is present and \<open>retries\<close>
  is exactly \<open>RETRY_TIMES\<close>; with status \<^verbatim>\<open>success\<close>, \<open>retries\<close> is at most
  \<open>RETRY_TIMES\<close>.
\<close>

theorem uploadFile_outcome_invariant:
  "\<exists>oc. fst (uploadFile en cfg fl index total' w) = Some oc \<and>
        (status oc = ''success'' \<or> status oc = ''error'') \<and>
        (status oc = ''success'' \<longleftrightarrow> url oc \<noteq> None) \<and>
        (status oc = ''error'' \<longrightarrow> error oc \<noteq> None \<and> retries oc = RETRY_TIMES cfg) \<and>
        (status oc = ''success'' \<longrightarrow> retries oc \<le> RETRY_TIMES cfg)"
  using uploadFile_loop_returns [of 0 cfg en fl index total' w]
  unfolding uploadFile_def by auto

text \<open>
  The theorem at an image host that is down (status \<^verbatim>\<open>error\<close>) and at one that accepts
  the first request (status \<^verbatim>\<open>success\<close>).
\<close>

theorem uploadFile_outcome_invariant_witness:
  "map_option status (fst (uploadFile env_down cfg0 ''a.png'' 0 1 w0)) = Some ''error'' \<and>
   map_option url (fst (uploadFile env_down cfg0 ''a.png'' 0 1 w0)) = Some None \<and>
   map_option error (fst (uploadFile env_down cfg0 ''a.png'' 0 1 w0)) \<noteq> Some None \<and>
   map_option retries (fst (uploadFile env_down cfg0 ''a.png'' 0 1 w0)) = Some (RETRY_TIMES cfg0) \<and>
   map_option status (fst (uploadFile env_ok cfg0 ''a.png'' 0 1 w0)) = Some ''success'' \<and>
   map_option url (fst (uploadFile env_ok cfg0 ''a.png'' 0 1 w0)) \<noteq> Some None \<and>
   map_option retries (fst (uploadFile env_ok cfg0 ''a.png'' 0 1 w0)) = Some 0"
proof -
  have "\<forall>k\<le>RETRY_TIMES cfg0. upload_attempt env_down cfg0 (sent (trace w0) + k) ''a.png'' =
          Inl (Error ''connect ECONNREFUSED'')"
    by (simp add: upload_attempt_def env_down_def env_ok_def)
  then have down: "map_option status (fst (uploadFile env_down cfg0 ''a.png'' 0 1 w0)) = Some ''error''"
    using uploadFile_loop_always_fails
      [of 0 "RETRY_TIMES cfg0" cfg0 env_down w0 "''a.png''" "\<lambda>k. Error ''connect ECONNREFUSED''" 0 1]
    by (simp add: uploadFile_def)
  have "upload_attempt env_ok cfg0 (sent (trace w0)) ''a.png'' = Inr ''https://im.gurl.eu.org/file/a.png''"
    by (simp add: upload_attempt_def env_ok_def)
  then have ok: "fst (uploadFile env_ok cfg0 ''a.png'' 0 1 w0) =
      Some \<lparr> filename = ''a.png'', url = Some ''https://im.gurl.eu.org/file/a.png'',
             status = ''success'', error = None, retries = 0 \<rparr>"
    by (simp add: uploadFile_def uploadFile_loop_success)
  from down uploadFile_outcome_invariant [of env_down cfg0 "''a.png''" 0 1 w0]
  have "map_option url (fst (uploadFile env_down cfg0 ''a.png'' 0 1 w0)) = Some None \<and>
        map_option error (fst (uploadFile env_down cfg0 ''a.png'' 0 1 w0)) \<noteq> Some None \<and>
        map_option retries (fst (uploadFile env_down cfg0 ''a.png'' 0 1 w0)) = Some (RETRY_TIMES cfg0)"
    by auto
  moreover from ok uploadFile_outcome_invariant [of env_ok cfg0 "''a.png''" 0 1 w0]
  have "map_option url (fst (uploadFile env_ok cfg0 ''a.png'' 0 1 w0)) \<noteq> Some None"
    by auto
  ultimately show ?thesis using down ok by simp
qed

section \<open>The requests of the document assembly\<close>

lemma seq_alt:
  "seq m k = (case fst m of Return x \<Rightarrow> k x (snd m)
                          | Throw e \<Rightarrow> (Throw e, snd m)
                          | Exit n \<Rightarrow> (Exit n, snd m))"
  by (cases m) (simp add: seq_def split: result.splits)

lemma result_json_writeLog [simp]: "result_json (writeLog lv m w) = result_json w"
  by (simp add: writeLog_def)

lemma createTelegraphAccount_world [simp]:
  "trace (snd (createTelegraphAccount en cfg w)) =
     trace w @ [HttpBegin (CreateAccount (TELEGRAPH_SHORT_NAME cfg) (TELEGRAPH_AUTHOR cfg)),
                HttpEnd (CreateAccount (TELEGRAPH_SHORT_NAME cfg) (TELEGRAPH_AUTHOR cfg))]"
  "result_json (snd (createTelegraphAccount en cfg w)) = result_json w"
  "fst (createTelegraphAccount en cfg w) \<noteq> Exit n"
  by (auto simp: createTelegraphAccount_def Let_def writeLog_def await_post_def
           split: sum.splits tg_reply.splits)

lemma createTelegraphPage_world [simp]:
  "trace (snd (createTelegraphPage en cfg accessToken images w)) =
     trace w @
       [HttpBegin (CreatePage accessToken (PAGE_URL cfg @ ''-'' @ nat_to_string (currentYear en))
                     (createPage_content images)),
        HttpEnd (CreatePage accessToken (PAGE_URL cfg @ ''-'' @ nat_to_string (currentYear en))
                   (createPage_content images))]"
  "result_json (snd (createTelegraphPage en cfg accessToken images w)) = result_json w"
  "fst (createTelegraphPage en cfg accessToken images w) \<noteq> Exit n"
  by (auto simp: createTelegraphPage_def Let_def writeLog_def await_post_def
           split: sum.splits tg_reply.splits)

lemma editTelegraphPage_world [simp]:
  "trace (snd (editTelegraphPage en cfg accessToken path newTitle content w)) =
     trace w @
       [HttpBegin (EditPage path accessToken newTitle content (TELEGRAPH_AUTHOR cfg) (AUTHOR_URL cfg)),
        HttpEnd (EditPage path accessToken newTitle content (TELEGRAPH_AUTHOR cfg) (AUTHOR_URL cfg))]"
  "result_json (snd (editTelegraphPage en cfg accessToken path newTitle content w)) = result_json w"
  "fst (editTelegraphPage en cfg accessToken path newTitle content w) \<noteq> Exit n"
  by (auto simp: editTelegraphPage_def Let_def writeLog_def await_post_def
           split: sum.splits tg_reply.splits)

lemma main_assemble_world:
  "upload_requests (trace (snd (main_assemble en cfg successResults w))) =
     upload_requests (trace w)"
  "result_json (snd (main_assemble en cfg successResults w)) = result_json w"
  "fst (main_assemble en cfg successResults w) \<noteq> Exit n"
  by (auto simp: main_assemble_def seq_alt split: result.splits)

lemma main_assemble_contents:
  "(created_contents (trace (snd (main_assemble en cfg successResults w))) =
      created_contents (trace w) \<and>
    edited_contents (trace (snd (main_assemble en cfg successResults w))) =
      edited_contents (trace w)) \<or>
   (created_contents (trace (snd (main_assemble en cfg successResults w))) =
      created_contents (trace w) @ [createPage_content successResults] \<and>
    edited_contents (trace (snd (main_assemble en cfg successResults w))) =
      edited_contents (trace w)) \<or>
   (created_contents (trace (snd (main_assemble en cfg successResults w))) =
      created_contents (trace w) @ [createPage_content successResults] \<and>
    edited_contents (trace (snd (main_assemble en cfg successResults w))) =
      edited_contents (trace w) @ [editPage_content successResults])"
  by (auto simp: main_assemble_def seq_alt split: result.splits)


section \<open>Runs that resume from a result file\<close>

lemma logged_writeLog [simp]: "logged (writeLog lv m w) = logged w @ [(lv, m)]"
  by (simp add: writeLog_def)

lemma main_results_resumed:
  "result_json w = Some stored \<Longrightarrow> main_results en cfg w = (Return (stored, None), w)"
  by (simp add: main_results_def seq_def)

lemma main_resumed:
  assumes "result_json w = Some stored"
  shows "main en cfg w =
      (case filter_success stored of
         Inl e \<Rightarrow> (1, writeLog ERROR (Msg_run_error (message e)) (writeLog INFO Msg_start w))
       | Inr successResults \<Rightarrow>
           (case main_assemble en cfg successResults (writeLog INFO Msg_start w) of
              (Return u, w2) \<Rightarrow>
                (1, writeLog ERROR
                      (Msg_run_error ''Cannot read properties of null (reading 'length')'') w2)
            | (Throw e, w2) \<Rightarrow> (1, writeLog ERROR (Msg_run_error (message e)) w2)
            | (Exit n, w2) \<Rightarrow> (n, w2)))"
proof -
  have "main_results en cfg (writeLog INFO Msg_start w) =
          (Return (stored, None), writeLog INFO Msg_start w)"
    using assms by (simp add: main_results_resumed)
  then show ?thesis
    by (simp add: main_def seq_def main_report_def split: sum.splits prod.splits result.splits)
qed

text \<open>
  C2. When the result file exists at the start of a run, lines 255-272 of \<^verbatim>\<open>main\<close>
  return the stored list as it is and leave the world as it was, with \<^verbatim>\<open>imageFiles\<close>
  still \<^verbatim>\<open>null\<close>; the whole run sends no upload request, and the result file holds the
  stored list at the end. Nothing is asked of the stored outcomes: they may all have
  status \<^verbatim>\<open>error\<close>.
\<close>

theorem resumed_run_uploads_nothing:
  assumes "result_json w = Some stored"
  shows "main_results en cfg w = (Return (stored, None), w) \<and>
         upload_requests (trace (snd (main en cfg w))) = upload_requests (trace w) \<and>
         result_json (snd (main en cfg w)) = Some stored"
proof -
  let ?w = "writeLog INFO Msg_start w"
  have "upload_requests (trace (snd (main en cfg w))) = upload_requests (trace w) \<and>
        result_json (snd (main en cfg w)) = Some stored"
  proof (cases "filter_success stored")
    case (Inl e)
    then show ?thesis using assms by (simp add: main_resumed [OF assms])
  next
    case (Inr sr)
    obtain r w2 where a: "main_assemble en cfg sr ?w = (r, w2)"
      by (cases "main_assemble en cfg sr ?w")
    from main_assemble_world(1,2) [of en cfg sr ?w] a assms
    have "upload_requests (trace w2) = upload_requests (trace w)" "result_json w2 = Some stored"
      by simp_all
    then show ?thesis using Inr a
      by (simp add: main_resumed [OF assms] split: result.splits)
  qed
  then show ?thesis using assms by (simp add: main_results_resumed)
qed

text \<open>The theorem at a result file whose only outcome has status \<^verbatim>\<open>error\<close>.\<close>

theorem resumed_run_uploads_nothing_witness:
  "result_json (resumed [Some failed_a]) = Some [Some failed_a] \<and>
   main_results env_ok cfg0 (resumed [Some failed_a]) =
     (Return ([Some failed_a], None), resumed [Some failed_a]) \<and>
   upload_requests (trace (snd (main env_ok cfg0 (resumed [Some failed_a])))) = [] \<and>
   result_json (snd (main env_ok cfg0 (resumed [Some failed_a]))) = Some [Some failed_a]"
proof -
  have h: "result_json (resumed [Some failed_a]) = Some [Some failed_a]"
    by (simp add: resumed_def)
  have "trace (resumed [Some failed_a]) = []" by (simp add: resumed_def)
  then show ?thesis
    using h resumed_run_uploads_nothing [OF h, of env_ok cfg0] by simp
qed

text \<open>
  C9. When the result file exists at the start of a run, \<^verbatim>\<open>imageFiles\<close> stays \<^verbatim>\<open>null\<close>
  (the second component returned by lines 255-272), the run ends with exit status 1, and
  the last line it logs is the error line of the top-level \<^verbatim>\<open>catch\<close> block. When
  filtering and the document assembly both succeed, the error is the one thrown by
  reading \<^verbatim>\<open>imageFiles.length\<close> in line 309.
\<close>

theorem resumed_run_ends_in_error_handler:
  assumes "result_json w = Some stored"
  shows "main_results en cfg (writeLog INFO Msg_start w) =
           (Return (stored, None), writeLog INFO Msg_start w) \<and>
         fst (main en cfg w) = 1 \<and>
         (\<exists>m rest. logged (snd (main en cfg w)) = rest @ [(ERROR, Msg_run_error m)]) \<and>
         (\<forall>successResults w2.
            filter_success stored = Inr successResults \<longrightarrow>
            main_assemble en cfg successResults (writeLog INFO Msg_start w) = (Return (), w2) \<longrightarrow>
            main en cfg w =
              (1, writeLog ERROR
                    (Msg_run_error ''Cannot read properties of null (reading 'length')'') w2))"
proof -
  let ?w = "writeLog INFO Msg_start w"
  have 1: "main_results en cfg ?w = (Return (stored, None), ?w)"
    using assms by (simp add: main_results_resumed)
  have 2: "fst (main en cfg w) = 1 \<and>
           (\<exists>m rest. logged (snd (main en cfg w)) = rest @ [(ERROR, Msg_run_error m)])"
  proof (cases "filter_success stored")
    case (Inl e)
    then show ?thesis by (simp add: main_resumed [OF assms])
  next
    case (Inr sr)
    obtain r w2 where a: "main_assemble en cfg sr ?w = (r, w2)"
      by (cases "main_assemble en cfg sr ?w")
    show ?thesis
    proof (cases r)
      case (Exit n)
      with a main_assemble_world(3) [of en cfg sr ?w n] show ?thesis by simp
    qed (use Inr a in \<open>simp_all add: main_resumed [OF assms]\<close>)
  qed
  have 3: "\<forall>successResults w2.
            filter_success stored = Inr successResults \<longrightarrow>
            main_assemble en cfg successResults ?w = (Return (), w2) \<longrightarrow>
            main en cfg w =
              (1, writeLog ERROR
                    (Msg_run_error ''Cannot read properties of null (reading 'length')'') w2)"
    by (simp add: main_resumed [OF assms])
  from 1 2 3 show ?thesis by blast
qed

text \<open>
  The theorem at a result file with one successful outcome and servers that accept every
  request: the document is created and edited, then the run fails.
\<close>

theorem resumed_run_ends_in_error_handler_witness:
  "result_json (resumed [Some outcome_a]) = Some [Some outcome_a] \<and>
   fst (main env_ok cfg0 (resumed [Some outcome_a])) = 1 \<and>
   fst (main_assemble env_ok cfg0 [outcome_a] (writeLog INFO Msg_start (resumed [Some outcome_a])))
     = Return () \<and>
   logged (snd (main env_ok cfg0 (resumed [Some outcome_a]))) =
     [(INFO, Msg_start), (INFO, Msg_account_ok), (INFO, Msg_access_token ''token''),
      (INFO, Msg_page_ok), (INFO, Msg_edit_ok),
      (INFO, Msg_final_url ''https://telegra.ph/album-2024-01-01''),
      (ERROR, Msg_run_error ''Cannot read properties of null (reading 'length')'')]"
proof -
  have h: "result_json (resumed [Some outcome_a]) = Some [Some outcome_a]"
    by (simp add: resumed_def)
  have f: "filter_success [Some outcome_a] = Inr [outcome_a]"
    by (simp add: outcome_a_def)
  have a: "fst (main_assemble env_ok cfg0 [outcome_a]
                  (writeLog INFO Msg_start (resumed [Some outcome_a]))) = Return ()"
    by code_simp
  then have a': "main_assemble env_ok cfg0 [outcome_a]
        (writeLog INFO Msg_start (resumed [Some outcome_a])) =
      (Return (), snd (main_assemble env_ok cfg0 [outcome_a]
                          (writeLog INFO Msg_start (resumed [Some outcome_a]))))"
    by (metis prod.collapse)
  have l: "logged (snd (main_assemble env_ok cfg0 [outcome_a]
                          (writeLog INFO Msg_start (resumed [Some outcome_a])))) =
     [(INFO, Msg_start), (INFO, Msg_account_ok), (INFO, Msg_access_token ''token''),
      (INFO, Msg_page_ok), (INFO, Msg_edit_ok),
      (INFO, Msg_final_url ''https://telegra.ph/album-2024-01-01'')]"
    by code_simp
  from resumed_run_ends_in_error_handler [OF h, of env_ok cfg0] f a'
  have "main env_ok cfg0 (resumed [Some outcome_a]) =
      (1, writeLog ERROR (Msg_run_error ''Cannot read properties of null (reading 'length')'')
            (snd (main_assemble env_ok cfg0 [outcome_a]
                    (writeLog INFO Msg_start (resumed [Some outcome_a])))))"
    by blast
  then show ?thesis using h a l by simp
qed

section \<open>The concurrency limit\<close>

text \<open>
  No function reads \<^verbatim>\<open>CONFIG.CONCURRENCY\<close>: changing it changes neither the results nor
  the world that a run of \<^verbatim>\<open>concurrentUpload\<close> leaves.
\<close>

lemma upload_attempt_CONCURRENCY [simp]:
  "upload_attempt en (cfg\<lparr>CONCURRENCY := k\<rparr>) n fl = upload_attempt en cfg n fl"
  by (simp add: upload_attempt_def split: sum.splits list.splits option.splits)

lemma uploadFile_loop_CONCURRENCY:
  "uploadFile_loop en (cfg\<lparr>CONCURRENCY := k\<rparr>) fl index total' retryCount w =
   uploadFile_loop en cfg fl index total' retryCount w"
proof (induction en cfg fl index total' retryCount w rule: uploadFile_loop.induct)
  case (1 en cfg fl index total' retryCount w)
  show ?case
    apply (subst uploadFile_loop.simps)
    apply (subst (2) uploadFile_loop.simps)
    using "1.IH" by (simp add: Let_def split: sum.splits)
qed

lemma concurrentUpload_loop_CONCURRENCY:
  "concurrentUpload_loop en (cfg\<lparr>CONCURRENCY := k\<rparr>) files total' i results w =
   concurrentUpload_loop en cfg files total' i results w"
proof (induction en cfg files total' i results w rule: concurrentUpload_loop.induct)
  case (1 en cfg files total' i results w)
  show ?case
    apply (subst concurrentUpload_loop.simps)
    apply (subst (2) concurrentUpload_loop.simps)
    using "1.IH" by (simp add: uploadFile_def uploadFile_loop_CONCURRENCY split: prod.splits)
qed

lemma concurrentUpload_CONCURRENCY:
  "concurrentUpload en (cfg\<lparr>CONCURRENCY := k\<rparr>) files w = concurrentUpload en cfg files w"
  by (simp add: concurrentUpload_def concurrentUpload_loop_CONCURRENCY)

text \<open>
  Every run of \<^verbatim>\<open>concurrentUpload\<close> that starts with nothing in flight has at most one
  request in flight at any time, whatever the limit.
\<close>

lemma in_flight_append:
  "in_flight n (xs @ ys) = in_flight n xs @ in_flight (last (n # in_flight n xs)) ys"
  by (induction n xs rule: in_flight.induct) auto

lemma one_at_a_time_post:
  "one_at_a_time t \<Longrightarrow> one_at_a_time (t @ [HttpBegin r, HttpEnd r])"
  by (simp add: one_at_a_time_def in_flight_append)

lemma one_at_a_time_timeout:
  "one_at_a_time t \<Longrightarrow> one_at_a_time (t @ [Timeout d])"
  by (simp add: one_at_a_time_def in_flight_append)

lemma fold_max_le:
  "list_all (\<lambda>n. n \<le> k) xs \<Longrightarrow> m \<le> k \<Longrightarrow> fold max xs (m::nat) \<le> k"
  by (induction xs arbitrary: m) auto

lemma one_at_a_time_max: "one_at_a_time t \<Longrightarrow> max_in_flight t \<le> 1"
  by (simp add: one_at_a_time_def max_in_flight_def fold_max_le)

lemma uploadFile_loop_one_at_a_time:
  "one_at_a_time (trace w) \<Longrightarrow>
   one_at_a_time (trace (snd (uploadFile_loop en cfg fl index total' retryCount w)))"
proof (induction en cfg fl index total' retryCount w rule: uploadFile_loop.induct)
  case (1 en cfg fl index total' retryCount w)
  let ?w1 = "writeLog INFO (Msg_uploading (index + 1) total' fl retryCount) w"
  let ?w2 = "await_post (Upload (BASE_URL cfg) (IMAGE_DIR cfg) fl) ?w1"
  have w2: "one_at_a_time (trace ?w2)"
    using "1.prems" by (simp add: one_at_a_time_post)
  show ?case
  proof (cases "retryCount \<le> RETRY_TIMES cfg")
    case False
    then show ?thesis using "1.prems" by (subst uploadFile_loop.simps) simp
  next
    case le: True
    show ?thesis
    proof (cases "upload_attempt en cfg (sent (trace w)) fl")
      case (Inr u)
      with le w2 show ?thesis by (simp add: uploadFile_loop_success)
    next
      case (Inl e)
      show ?thesis
      proof (cases "retryCount = RETRY_TIMES cfg")
        case True
        with Inl w2 show ?thesis by (simp add: uploadFile_loop_exhausted)
      next
        case False
        have a: "upload_attempt en cfg (sent (trace ?w1)) fl = Inl e" using Inl by simp
        have "one_at_a_time (trace (await_timeout (RETRY_DELAY cfg) ?w2))"
          using w2 by (simp add: one_at_a_time_timeout del: trace_await_post)
        then have "one_at_a_time (trace (snd (uploadFile_loop en cfg fl index total'
            (retryCount + 1) (await_timeout (RETRY_DELAY cfg) ?w2))))"
          by (rule "1.IH" [OF le refl refl a False])
        moreover have "retryCount < RETRY_TIMES cfg" using le False by simp
        ultimately show ?thesis using Inl by (simp add: uploadFile_loop_step)
      qed
    qed
  qed
qed

lemma concurrentUpload_loop_one_at_a_time:
  "one_at_a_time (trace w) \<Longrightarrow>
   one_at_a_time (trace (snd (concurrentUpload_loop en cfg files total' i results w)))"
proof (induction en cfg files total' i results w rule: concurrentUpload_loop.induct)
  case (1 en cfg files total' i results w)
  show ?case
  proof (cases "i < length files")
    case False
    then show ?thesis using "1.prems" by (subst concurrentUpload_loop.simps) simp
  next
    case True
    obtain r w1 where up: "uploadFile en cfg (files ! i) i total' w = (r, w1)"
      by (cases "uploadFile en cfg (files ! i) i total' w")
    have "one_at_a_time (trace w1)"
      using uploadFile_loop_one_at_a_time [OF "1.prems", of en cfg "files ! i" i total' 0] up
      by (simp add: uploadFile_def)
    then have "one_at_a_time (trace (snd (concurrentUpload_loop en cfg files total' (i + 1)
        (results @ [r]) (w1\<lparr>stdout := stdout w1 @ [(i + 1, total')]\<rparr>))))"
      using "1.IH" [OF True up [symmetric]] by simp
    then show ?thesis using True up by (subst concurrentUpload_loop.simps) simp
  qed
qed

lemma concurrentUpload_one_at_a_time:
  assumes "one_at_a_time (trace w)"
  shows "max_in_flight (trace (snd (concurrentUpload en cfg files w))) \<le> 1"
proof -
  have "one_at_a_time (trace (writeLog INFO (Msg_found (length files)) w))"
    using assms by simp
  then have "one_at_a_time (trace (snd (concurrentUpload en cfg files w)))"
    unfolding concurrentUpload_def Let_def by (rule concurrentUpload_loop_one_at_a_time)
  then show ?thesis by (rule one_at_a_time_max)
qed

text \<open>
  C3. The claim asks for up to \<^verbatim>\<open>CONCURRENCY\<close> uploads in flight and forbids running them
  one after the other. With the configured limit of 10, two files and an image host that
  accepts every upload, the second request leaves only after the first has settled: the
  number of requests in flight is 1, 0, 1, 0, never more than one, and the run is the
  run with the limit set to 1.
\<close>

theorem concurrentUpload_is_sequential:
  "CONCURRENCY cfg0 = 10 \<and>
   trace (snd (concurrentUpload env_ok cfg0 [''a.png'', ''b.jpg''] w0)) =
     [HttpBegin (Upload ''https://im.gurl.eu.org'' ''./images'' ''a.png''),
      HttpEnd (Upload ''https://im.gurl.eu.org'' ''./images'' ''a.png''),
      HttpBegin (Upload ''https://im.gurl.eu.org'' ''./images'' ''b.jpg''),
      HttpEnd (Upload ''https://im.gurl.eu.org'' ''./images'' ''b.jpg'')] \<and>
   in_flight 0 (trace (snd (concurrentUpload env_ok cfg0 [''a.png'', ''b.jpg''] w0))) =
     [1, 0, 1, 0] \<and>
   max_in_flight (trace (snd (concurrentUpload env_ok cfg0 [''a.png'', ''b.jpg''] w0))) = 1 \<and>
   concurrentUpload env_ok (cfg0\<lparr>CONCURRENCY := 1\<rparr>) [''a.png'', ''b.jpg''] w0 =
     concurrentUpload env_ok cfg0 [''a.png'', ''b.jpg''] w0"
  by (simp add: sample_upload concurrentUpload_CONCURRENCY max_in_flight_def)

section \<open>The content tree\<close>

text \<open>
  What \<open>nat_to_string\<close> prints: decimal digits only, denoting the number, without a
  leading zero for a positive number.
\<close>

lemma digit_char_value:
  "d < 10 \<Longrightarrow> of_char (''0123456789'' ! d) = (48 + d :: nat)"
proof -
  assume "d < 10"
  then have "d \<in> {0, 1, 2, 3, 4, 5, 6, 7, 8, 9}" by auto
  then show ?thesis by auto
qed

lemma decimal_value_snoc:
  "decimal_value (s @ [c]) = 10 * decimal_value s + (of_char c - 48)"
  by (simp add: decimal_value_def)

lemma nat_to_string_value: "decimal_value (nat_to_string n) = n"
proof (induction n rule: nat_to_string.induct)
  case (1 n)
  show ?case
  proof (cases "n < 10")
    case True
    then show ?thesis
      by (subst nat_to_string.simps) (simp add: decimal_value_def digit_char_value)
  next
    case False
    then have "decimal_value (nat_to_string (n div 10)) = n div 10" by (rule "1.IH")
    then show ?thesis using False
      by (subst nat_to_string.simps) (simp add: decimal_value_snoc digit_char_value)
  qed
qed

lemma nat_to_string_digits: "set (nat_to_string n) \<subseteq> set ''0123456789''"
proof (induction n rule: nat_to_string.induct)
  case (1 n)
  have d: "''0123456789'' ! k \<in> set ''0123456789''" if "k < 10" for k
    using that by (intro nth_mem) simp
  show ?case
  proof (cases "n < 10")
    case True
    then show ?thesis using d [of n] by (subst nat_to_string.simps) simp
  next
    case False
    then have "set (nat_to_string (n div 10)) \<subseteq> set ''0123456789''" by (rule "1.IH")
    moreover have "''0123456789'' ! (n mod 10) \<in> set ''0123456789''" by (rule d) simp
    ultimately show ?thesis using False by (subst nat_to_string.simps) simp
  qed
qed

lemma nat_to_string_nonempty: "nat_to_string n \<noteq> []"
  by (subst nat_to_string.simps) simp

lemma nat_to_string_no_leading_zero: "0 < n \<Longrightarrow> hd (nat_to_string n) \<noteq> CHR ''0''"
proof (induction n rule: nat_to_string.induct)
  case (1 n)
  show ?case
  proof (cases "n < 10")
    case True
    with "1.prems" have "n \<in> {1, 2, 3, 4, 5, 6, 7, 8, 9}" by auto
    then show ?thesis using True by (subst nat_to_string.simps) auto
  next
    case False
    then have "0 < n div 10" by simp
    with False have "hd (nat_to_string (n div 10)) \<noteq> CHR ''0''" by (intro "1.IH") simp_all
    then show ?thesis using False
      by (subst nat_to_string.simps) (simp add: nat_to_string_nonempty)
  qed
qed


text \<open>
  C6. For every list of successful outcomes, the content that \<^verbatim>\<open>createTelegraphPage\<close>
  sends has one node more than there are outcomes. The first is the summary paragraph:
  its text is the fixed words of line 183 around the number of images, printed in
  decimal digits that denote exactly that number. Then comes, for the outcome at each
  position, one \<^verbatim>\<open>figure\<close> node holding an \<^verbatim>\<open>img\<close> node whose \<^verbatim>\<open>src\<close> is the \<open>url\<close> of
  the outcome and a \<^verbatim>\<open>figcaption\<close> node whose text is its \<open>filename\<close>.
\<close>

theorem createTelegraphPage_content_tree:
  "created_contents (trace (snd (createTelegraphPage en cfg accessToken images w))) =
     created_contents (trace w) @ [createPage_content images] \<and>
   length (createPage_content images) = Suc (length images) \<and>
   createPage_content images ! 0 =
     Node ''p'' None (Some [Str
       ([CHR 0xE5, CHR 0x85, CHR 0xB1, CHR 0xE4, CHR 0xB8, CHR 0x8A, CHR 0xE4, CHR 0xBC,
         CHR 0xA0, CHR 0x20] @ nat_to_string (length images) @
        [CHR 0x20, CHR 0xE5, CHR 0xBC, CHR 0xA0, CHR 0xE5, CHR 0x9B, CHR 0xBE, CHR 0xE7,
         CHR 0x89, CHR 0x87])]) \<and>
   set (nat_to_string (length images)) \<subseteq> set ''0123456789'' \<and>
   decimal_value (nat_to_string (length images)) = length images \<and>
   (0 < length images \<longrightarrow> hd (nat_to_string (length images)) \<noteq> CHR ''0'') \<and>
   (\<forall>i<length images.
      createPage_content images ! Suc i =
        Node ''figure'' None (Some
          [Node ''img'' (Some [(''src'', url (images ! i))]) None,
           Node ''figcaption'' None (Some [Str (filename (images ! i))])]))"
proof -
  have "createPage_content images ! 0 =
     Node ''p'' None (Some [Str
       ([CHR 0xE5, CHR 0x85, CHR 0xB1, CHR 0xE4, CHR 0xB8, CHR 0x8A, CHR 0xE4, CHR 0xBC,
         CHR 0xA0, CHR 0x20] @ nat_to_string (length images) @
        [CHR 0x20, CHR 0xE5, CHR 0xBC, CHR 0xA0, CHR 0xE5, CHR 0x9B, CHR 0xBE, CHR 0xE7,
         CHR 0x89, CHR 0x87])])"
    by (simp add: createPage_content_def summary_text_def)
  moreover have "\<forall>i<length images.
      createPage_content images ! Suc i =
        Node ''figure'' None (Some
          [Node ''img'' (Some [(''src'', url (images ! i))]) None,
           Node ''figcaption'' None (Some [Str (filename (images ! i))])])"
    by (simp add: createPage_content_def)
  moreover have "length (createPage_content images) = Suc (length images)"
    by (simp add: createPage_content_def)
  moreover have "created_contents (trace (snd (createTelegraphPage en cfg accessToken images w))) =
     created_contents (trace w) @ [createPage_content images]"
    by simp
  ultimately show ?thesis
    using nat_to_string_digits [of "length images"] nat_to_string_value [of "length images"]
      nat_to_string_no_leading_zero [of "length images"]
    by blast
qed

text \<open>
  The theorem at the outcomes \<^verbatim>\<open>a.png\<close> and \<^verbatim>\<open>b.jpg\<close>: the whole tree, with the count 2
  in the summary.
\<close>

theorem createTelegraphPage_content_tree_witness:
  "createPage_content [outcome_a, outcome_b] =
     [Node ''p'' None (Some [Str
        [CHR 0xE5, CHR 0x85, CHR 0xB1, CHR 0xE4, CHR 0xB8, CHR 0x8A, CHR 0xE4, CHR 0xBC,
         CHR 0xA0, CHR 0x20, CHR ''2'', CHR 0x20, CHR 0xE5, CHR 0xBC, CHR 0xA0, CHR 0xE5,
         CHR 0x9B, CHR 0xBE, CHR 0xE7, CHR 0x89, CHR 0x87]]),
      Node ''figure'' None (Some
        [Node ''img'' (Some [(''src'', Some ''https://host/a'')]) None,
         Node ''figcaption'' None (Some [Str ''a.png''])]),
      Node ''figure'' None (Some
        [Node ''img'' (Some [(''src'', Some ''https://host/b'')]) None,
         Node ''figcaption'' None (Some [Str ''b.jpg''])])] \<and>
   decimal_value ''2'' = length [outcome_a, outcome_b]"
proof -
  let ?c = "createPage_content [outcome_a, outcome_b]"
  have n: "nat_to_string 2 = ''2''"
    by (simp add: nat_to_string.simps)
  note t = createTelegraphPage_content_tree [of env_ok cfg0 "''token''" "[outcome_a, outcome_b]" w0]
  have l: "length ?c = 3" using t by simp
  have 0: "?c ! 0 = Node ''p'' None (Some [Str
        [CHR 0xE5, CHR 0x85, CHR 0xB1, CHR 0xE4, CHR 0xB8, CHR 0x8A, CHR 0xE4, CHR 0xBC,
         CHR 0xA0, CHR 0x20, CHR ''2'', CHR 0x20, CHR 0xE5, CHR 0xBC, CHR 0xA0, CHR 0xE5,
         CHR 0x9B, CHR 0xBE, CHR 0xE7, CHR 0x89, CHR 0x87]])"
    using t n by (simp add: numeral_2_eq_2)
  have f: "\<forall>i<length [outcome_a, outcome_b].
      ?c ! Suc i =
        Node ''figure'' None (Some
          [Node ''img'' (Some [(''src'', url ([outcome_a, outcome_b] ! i))]) None,
           Node ''figcaption'' None (Some [Str (filename ([outcome_a, outcome_b] ! i))])])"
    using t by blast
  have 1: "?c ! 1 = Node ''figure'' None (Some
        [Node ''img'' (Some [(''src'', Some ''https://host/a'')]) None,
         Node ''figcaption'' None (Some [Str ''a.png''])])"
    using f [rule_format, of 0] by (simp add: outcome_a_def)
  have 2: "?c ! 2 = Node ''figure'' None (Some
        [Node ''img'' (Some [(''src'', Some ''https://host/b'')]) None,
         Node ''figcaption'' None (Some [Str ''b.jpg''])])"
    using f [rule_format, of 1] by (simp add: outcome_b_def numeral_2_eq_2)
  have "?c = [?c ! 0, ?c ! 1, ?c ! 2]"
    using l by (cases ?c rule: list.exhaust; simp add: length_Suc_conv numeral_3_eq_3; auto)
  then have "?c = [Node ''p'' None (Some [Str
        [CHR 0xE5, CHR 0x85, CHR 0xB1, CHR 0xE4, CHR 0xB8, CHR 0x8A, CHR 0xE4, CHR 0xBC,
         CHR 0xA0, CHR 0x20, CHR ''2'', CHR 0x20, CHR 0xE5, CHR 0xBC, CHR 0xA0, CHR 0xE5,
         CHR 0x9B, CHR 0xBE, CHR 0xE7, CHR 0x89, CHR 0x87]]),
      Node ''figure'' None (Some
        [Node ''img'' (Some [(''src'', Some ''https://host/a'')]) None,
         Node ''figcaption'' None (Some [Str ''a.png''])]),
      Node ''figure'' None (Some
        [Node ''img'' (Some [(''src'', Some ''https://host/b'')]) None,
         Node ''figcaption'' None (Some [Str ''b.jpg''])])]"
    unfolding 0 1 2 .
  moreover have "decimal_value ''2'' = length [outcome_a, outcome_b]"
    using t n by (simp add: numeral_2_eq_2)
  ultimately show ?thesis by blast
qed

section \<open>The content of the rewrite\<close>

text \<open>
  A run without a result file, in a directory with two images, against servers that
  accept every request.
\<close>

lemma sample_getImageFiles:
  "getImageFiles env_ok cfg0 w = (Return [''a.png'', ''b.jpg''], w)"
  by (simp add: getImageFiles_def env_ok_def cfg0_def CONFIG_def)

lemma sample_upload_from:
  "concurrentUpload env_ok cfg0 [''a.png'', ''b.jpg''] w =
     ([Some \<lparr> filename = ''a.png'', url = Some ''https://im.gurl.eu.org/file/a.png'',
               status = ''success'', error = None, retries = 0 \<rparr>,
       Some \<lparr> filename = ''b.jpg'', url = Some ''https://im.gurl.eu.org/file/b.jpg'',
               status = ''success'', error = None, retries = 0 \<rparr>],
      w \<lparr> logged := logged w @ [(INFO, Msg_found 2), (INFO, Msg_uploading 1 2 ''a.png'' 0),
                                  (INFO, Msg_uploading 2 2 ''b.jpg'' 0)],
          trace := trace w @
                [HttpBegin (Upload ''https://im.gurl.eu.org'' ''./images'' ''a.png''),
                 HttpEnd (Upload ''https://im.gurl.eu.org'' ''./images'' ''a.png''),
                 HttpBegin (Upload ''https://im.gurl.eu.org'' ''./images'' ''b.jpg''),
                 HttpEnd (Upload ''https://im.gurl.eu.org'' ''./images'' ''b.jpg'')],
          stdout := stdout w @ [(1, 2), (2, 2)] \<rparr>)"
  by (simp add: concurrentUpload_def concurrentUpload_loop.simps uploadFile_def
        uploadFile_loop_success upload_attempt_def env_ok_def writeLog_def await_post_def)

lemma sample_assemble:
  "fst (createTelegraphAccount env_ok cfg w) = Return ''token''"
  "fst (createTelegraphPage env_ok cfg accessToken images w) =
     Return ''https://telegra.ph/album-2024-01-01''"
  "fst (editTelegraphPage env_ok cfg accessToken path newTitle content w) =
     Return (''https://telegra.ph/'' @ path)"
  by (simp_all add: createTelegraphAccount_def createTelegraphPage_def editTelegraphPage_def
        env_ok_def Let_def)

lemma sample_assemble_run:
  assumes "successResults \<noteq> []"
  shows "fst (main_assemble env_ok cfg successResults w) = Return ()"
    and "created_contents (trace (snd (main_assemble env_ok cfg successResults w))) =
           created_contents (trace w) @ [createPage_content successResults]"
    and "edited_contents (trace (snd (main_assemble env_ok cfg successResults w))) =
           edited_contents (trace w) @ [editPage_content successResults]"
  using assms by (simp_all add: main_assemble_def seq_alt sample_assemble)

text \<open>
  For every list, the content built for the edit request is the content built for the
  create request without its first node, the summary paragraph.
\<close>

lemma editPage_content_lacks_summary:
  "createPage_content successResults =
     Node ''p'' None (Some [Str (summary_text (length successResults))]) #
     editPage_content successResults"
  by (simp add: createPage_content_def editPage_content_def)

text \<open>
  C7. The claim asks that the rewrite gets the content tree that the create request got.
  In a run that uploads \<^verbatim>\<open>a.png\<close> and \<^verbatim>\<open>b.jpg\<close> and ends with exit status 0, the create
  request carries the summary paragraph and the two figures, and the edit request
  carries the two figures only: the rewrite, which the source calls a change of the
  title (lines 234 and 284), also removes the summary paragraph from the page.
\<close>

theorem edit_request_drops_summary_paragraph:
  "fst (main env_ok cfg0 w0) = 0 \<and>
   created_contents (trace (snd (main env_ok cfg0 w0))) =
     [[Node ''p'' None (Some [Str
         [CHR 0xE5, CHR 0x85, CHR 0xB1, CHR 0xE4, CHR 0xB8, CHR 0x8A, CHR 0xE4, CHR 0xBC,
          CHR 0xA0, CHR 0x20, CHR ''2'', CHR 0x20, CHR 0xE5, CHR 0xBC, CHR 0xA0, CHR 0xE5,
          CHR 0x9B, CHR 0xBE, CHR 0xE7, CHR 0x89, CHR 0x87]]),
       Node ''figure'' None (Some
         [Node ''img'' (Some [(''src'', Some ''https://im.gurl.eu.org/file/a.png'')]) None,
          Node ''figcaption'' None (Some [Str ''a.png''])]),
       Node ''figure'' None (Some
         [Node ''img'' (Some [(''src'', Some ''https://im.gurl.eu.org/file/b.jpg'')]) None,
          Node ''figcaption'' None (Some [Str ''b.jpg''])])]] \<and>
   edited_contents (trace (snd (main env_ok cfg0 w0))) =
     [[Node ''figure'' None (Some
         [Node ''img'' (Some [(''src'', Some ''https://im.gurl.eu.org/file/a.png'')]) None,
          Node ''figcaption'' None (Some [Str ''a.png''])]),
       Node ''figure'' None (Some
         [Node ''img'' (Some [(''src'', Some ''https://im.gurl.eu.org/file/b.jpg'')]) None,
          Node ''figcaption'' None (Some [Str ''b.jpg''])])]]"
proof -
  let ?a = "\<lparr> filename = ''a.png'', url = Some ''https://im.gurl.eu.org/file/a.png'',
               status = ''success'', error = None, retries = 0 \<rparr>"
  let ?b = "\<lparr> filename = ''b.jpg'', url = Some ''https://im.gurl.eu.org/file/b.jpg'',
               status = ''success'', error = None, retries = 0 \<rparr>"
  let ?w = "writeLog INFO Msg_start w0"
  have "result_json ?w = None" by (simp add: w0_def)
  then have r: "fst (main_results env_ok cfg0 ?w) = Return ([Some ?a, Some ?b], Some [''a.png'', ''b.jpg''])"
    "trace (snd (main_results env_ok cfg0 ?w)) =
       [HttpBegin (Upload ''https://im.gurl.eu.org'' ''./images'' ''a.png''),
        HttpEnd (Upload ''https://im.gurl.eu.org'' ''./images'' ''a.png''),
        HttpBegin (Upload ''https://im.gurl.eu.org'' ''./images'' ''b.jpg''),
        HttpEnd (Upload ''https://im.gurl.eu.org'' ''./images'' ''b.jpg'')]"
    by (simp_all add: main_results_def seq_def sample_getImageFiles sample_upload_from)
  have f: "filter_success [Some ?a, Some ?b] = Inr [?a, ?b]" by simp
  have n: "nat_to_string (Suc (Suc 0)) = ''2''" by (simp add: nat_to_string.simps)
  have m: "main env_ok cfg0 w0 =
      (0, snd (main_report env_ok cfg0 [?a, ?b] (Some [''a.png'', ''b.jpg''])
                 (snd (main_assemble env_ok cfg0 [?a, ?b] (snd (main_results env_ok cfg0 ?w))))))"
    by (simp add: main_def seq_alt r f sample_assemble_run main_report_def)
  have t: "trace (snd (main_report en cfg sr (Some fs) w)) = trace w" for en cfg sr fs w
    by (simp add: main_report_def)
  show ?thesis
    by (simp add: m t sample_assemble_run r createPage_content_def editPage_content_def
          summary_text_def n)
qed

section \<open>Runs without a successful upload\<close>

text \<open>
  C8. A run resumed from a result file whose only outcome has status \<^verbatim>\<open>error\<close> has no
  successful outcome and sends no request to the document service, but it does not
  report the totals: it logs the start line and the error line of the \<^verbatim>\<open>catch\<close> block
  and ends with exit status 1.
\<close>

theorem resumed_run_without_success_reports_no_totals:
  "filter_success [Some failed_a] = Inr [] \<and>
   main env_ok cfg0 (resumed [Some failed_a]) =
     (1, (resumed [Some failed_a]) \<lparr> logged :=
           [(INFO, Msg_start),
            (ERROR, Msg_run_error ''Cannot read properties of null (reading 'length')'')] \<rparr>) \<and>
   document_requests (trace (snd (main env_ok cfg0 (resumed [Some failed_a])))) = []"
  by code_simp

text \<open>
  A run that starts without a result file and has no successful upload does report the
  totals, and ends with exit status 0.
\<close>

lemma fresh_run_without_success_reports_totals:
  assumes "result_json w = None"
    and "getImageFiles en cfg (writeLog INFO Msg_start w) = (Return imageFiles, w1)"
    and "concurrentUpload en cfg imageFiles w1 = (results, w2)"
    and "filter_success results = Inr []"
  shows "main en cfg w =
     (0, writeLog INFO Msg_normal_exit
           (writeLog INFO (Msg_md_path (resolve en (RESULT_MD cfg)))
              (writeLog INFO (Msg_json_path (resolve en (RESULT_JSON cfg)))
                 (writeLog INFO (Msg_totals 0 (length imageFiles))
                    (w2\<lparr>result_json := Some results\<rparr>)))))"
  using assms
  by (simp add: main_def main_results_def seq_def main_assemble_def main_report_def)

end
